theory Spec2Isabelle
  imports Complex_Main
begin

section \<open>Python values and exceptions\<close>

text \<open>
  The assistant of \<^verbatim>\<open>interfaz_chatbot_aemet.py\<close> is one Streamlit script. Its logic is
  the two retrying wrappers \<^verbatim>\<open>safe_generate_content\<close> and \<^verbatim>\<open>safe_embed_content\<close> and
  the five stages run for each user input. Text is a \<^typ>\<open>string\<close>; a character stands
  for a code point below 256, which covers every literal of the script.

  An exception is kept as its class and its message: the script only ever reads
  \<^verbatim>\<open>str(e)\<close>. The type \<open>exn\<close> holds the instances of \<^verbatim>\<open>Exception\<close>, which is what the
  script's \<^verbatim>\<open>except Exception\<close> clauses catch; the services of the pipeline raise nothing
  else. What Python raises besides (\<^verbatim>\<open>KeyboardInterrupt\<close>, \<^verbatim>\<open>SystemExit\<close>) passes such a
  clause; the wrappers are written out for it in a section of its own below.
\<close>

datatype exn =
    AttributeError string
  | IndexError string
  | TypeError string
  | ValueError string
  | Exception string

fun str_exn :: "exn \<Rightarrow> string" where
  "str_exn (AttributeError msg) = msg"
| "str_exn (IndexError msg) = msg"
| "str_exn (TypeError msg) = msg"
| "str_exn (ValueError msg) = msg"
| "str_exn (Exception msg) = msg"

text \<open>
  A Python float is a finite number, an infinity or a NaN. Only comparisons are made on
  scores, and a comparison of two floats is the comparison of their values, false
  whenever a NaN is involved. An \<^verbatim>\<open>int\<close> such as the default score \<^verbatim>\<open>0\<close> compares as
  the finite number it is.
\<close>

datatype pyfloat = Finite real | PosInf | NegInf | NaN

fun float_ge :: "pyfloat \<Rightarrow> pyfloat \<Rightarrow> bool" where
  "float_ge NaN y = False"
| "float_ge x NaN = False"
| "float_ge PosInf y = True"
| "float_ge x NegInf = True"
| "float_ge (Finite x) (Finite y) = (y \<le> x)"
| "float_ge (Finite x) PosInf = False"
| "float_ge NegInf y = False"

text \<open>\<^verbatim>\<open>str(n)\<close> for a non-negative integer, used for the attempt number of a warning.\<close>

definition digit :: "nat \<Rightarrow> char" where
  "digit d = char_of (of_char (CHR ''0'') + d)"

function str_nat :: "nat \<Rightarrow> string" where
  "str_nat n = (if n < 10 then [digit n] else str_nat (n div 10) @ [digit (n mod 10)])"
  by pat_completeness auto
termination
  by (relation "measure (\<lambda>n. n)") auto

declare str_nat.simps [simp del]

text \<open>
  \<^verbatim>\<open>s.strip()\<close> removes the white space at both ends. The white-space code points below
  256 are 9 to 13, 28 to 32, 133 and 160.
\<close>

definition isspace :: "char \<Rightarrow> bool" where
  "isspace c = (let n = (of_char c :: nat) in
     (9 \<le> n \<and> n \<le> 13) \<or> (28 \<le> n \<and> n \<le> 32) \<or> n = 133 \<or> n = 160)"

definition strip :: "string \<Rightarrow> string" where
  "strip s = rev (dropWhile isspace (rev (dropWhile isspace s)))"

text \<open>\<^verbatim>\<open>sep.join(xs)\<close>.\<close>

fun join :: "string \<Rightarrow> string list \<Rightarrow> string" where
  "join sep [] = []"
| "join sep [x] = x"
| "join sep (x # y # ys) = x @ sep @ join sep (y # ys)"

section \<open>What the external services return\<close>

text \<open>
  The response of \<^verbatim>\<open>model.generate_content\<close> is read as
  \<^verbatim>\<open>response.candidates[0].content.parts[0].text\<close>. Each level may be missing: \<open>None\<close>
  for \<open>candidates\<close> and \<open>parts\<close> is an object without that attribute (\<^verbatim>\<open>hasattr\<close> is
  false), \<open>None\<close> for \<open>content\<close> is a candidate without the attribute, and \<open>None\<close> for
  \<open>text\<close> is a part whose text is \<^verbatim>\<open>None\<close>.
\<close>

datatype part = Part (part_text: "string option")

datatype content = Content (content_parts: "part list option")

datatype candidate = Candidate (candidate_content: "content option")

datatype response = Response (response_candidates: "candidate list option")

text \<open>
  The value stored under the key \<^verbatim>\<open>'embedding'\<close>: \<^verbatim>\<open>None\<close>, a list of numbers, or any
  other object, of which the script only uses the truth value (which \<^verbatim>\<open>__bool__\<close> may
  refuse to give, as an array with several elements does). \<^verbatim>\<open>genai.embed_content\<close>
  returns a mapping that may lack the key, or something that is no container at all.
\<close>

datatype embedding = PyNone | PyList "real list" | PyObject "exn + bool"

datatype embed_response = EmbedDict "embedding option" | EmbedOther

text \<open>
  The result of \<^verbatim>\<open>index.query\<close>: a mapping with an optional \<^verbatim>\<open>'matches'\<close> entry; each
  match a mapping with optional \<^verbatim>\<open>'score'\<close> and \<^verbatim>\<open>'metadata'\<close> entries; the metadata a
  mapping from field names to text. At each level the \<open>Other\<close> constructor is a value of
  the wrong shape: one without \<^verbatim>\<open>get\<close>, one that cannot be iterated, a score that does
  not compare with a float.
\<close>

datatype score_field = Score pyfloat | ScoreOther

datatype metadata_field = Metadata "string \<rightharpoonup> string" | MetadataOther

datatype match =
    Match (match_score: "score_field option") (match_metadata: "metadata_field option")
  | MatchOther

datatype matches_field = Matches "match list" | MatchesOther

datatype query_res = QueryRes "matches_field option" | QueryResOther

text \<open>
  The three services. Each call takes the state of the outside world and returns what the
  call raised or returned, with the next state of the world: a service may answer
  differently on every call and depend on everything that happened before.
\<close>

record 'w services =
  generate_content :: "string \<Rightarrow> 'w \<Rightarrow> (exn + response) \<times> 'w"
  embed_content :: "string \<Rightarrow> 'w \<Rightarrow> (exn + embed_response) \<times> 'w"
  index_query :: "embedding \<Rightarrow> nat \<Rightarrow> bool \<Rightarrow> 'w \<Rightarrow> (exn + query_res) \<times> 'w"

section \<open>Effects\<close>

text \<open>
  What a run does besides computing: the calls to the services, the waits, the notices
  and the lines printed, in the order they happen. The rendering of the chat itself
  (\<^verbatim>\<open>st.chat_message\<close>, \<^verbatim>\<open>st.markdown\<close>, the spinner) is left out.
\<close>

datatype event =
    GenerateCall string
  | EmbedCall string
  | IndexQuery embedding nat bool
  | Sleep nat
  | StWarning string
  | StError string
  | Print "string list"

text \<open>
  A piece of Python: from a state of the world to either the exception raised or the
  value returned, the events of the run, and the world afterwards.
\<close>

type_synonym ('a, 'w) py = "'w \<Rightarrow> (exn + 'a) \<times> event list \<times> 'w"

definition py_return :: "'a \<Rightarrow> ('a, 'w) py" where
  "py_return x w = (Inr x, [], w)"

definition py_bind :: "('a, 'w) py \<Rightarrow> ('a \<Rightarrow> ('b, 'w) py) \<Rightarrow> ('b, 'w) py" where
  "py_bind m f w =
     (case m w of
        (Inl e, ev, w') \<Rightarrow> (Inl e, ev, w')
      | (Inr x, ev, w') \<Rightarrow> (case f x w' of (r, ev', w'') \<Rightarrow> (r, ev @ ev', w'')))"

text \<open>\<^verbatim>\<open>try: m  except Exception as e: h e\<close>.\<close>

definition py_try :: "('a, 'w) py \<Rightarrow> (exn \<Rightarrow> ('a, 'w) py) \<Rightarrow> ('a, 'w) py" where
  "py_try m h w =
     (case m w of
        (Inl e, ev, w') \<Rightarrow> (case h e w' of (r, ev', w'') \<Rightarrow> (r, ev @ ev', w''))
      | (Inr x, ev, w') \<Rightarrow> (Inr x, ev, w'))"

definition py_lift :: "exn + 'a \<Rightarrow> ('a, 'w) py" where
  "py_lift r w = (r, [], w)"

definition emit :: "event \<Rightarrow> (unit, 'w) py" where
  "emit e w = (Inr (), [e], w)"

definition time_sleep :: "nat \<Rightarrow> (unit, 'w) py" where
  "time_sleep n = emit (Sleep n)"

definition st_warning :: "string \<Rightarrow> (unit, 'w) py" where
  "st_warning msg = emit (StWarning msg)"

definition st_error :: "string \<Rightarrow> (unit, 'w) py" where
  "st_error msg = emit (StError msg)"

definition print :: "string list \<Rightarrow> (unit, 'w) py" where
  "print args = emit (Print args)"

definition call_generate :: "'w services \<Rightarrow> string \<Rightarrow> (response, 'w) py" where
  "call_generate sv prompt w =
     (case generate_content sv prompt w of (r, w') \<Rightarrow> (r, [GenerateCall prompt], w'))"

definition call_embed :: "'w services \<Rightarrow> string \<Rightarrow> (embed_response, 'w) py" where
  "call_embed sv content w =
     (case embed_content sv content w of (r, w') \<Rightarrow> (r, [EmbedCall content], w'))"

definition call_query :: "'w services \<Rightarrow> embedding \<Rightarrow> nat \<Rightarrow> bool \<Rightarrow> (query_res, 'w) py" where
  "call_query sv vector top_k include_metadata w =
     (case index_query sv vector top_k include_metadata w of
        (r, w') \<Rightarrow> (r, [IndexQuery vector top_k include_metadata], w'))"

section \<open>Configuration\<close>

definition MIN_SIMILARITY_SCORE :: pyfloat where
  "MIN_SIMILARITY_SCORE = Finite 0.50"

definition TOP_K :: nat where
  "TOP_K = 5"

definition CUSTOM_PROMPT :: string where
  "CUSTOM_PROMPT =
     [CHR 0x0A] @
     ''Eres un asistente especializado en resolver dudas sobre el pliego de condiciones del'' @
     '' proyecto de Crowdsourcing para la recogida, tratamiento y difusi'' @ [CHR 0xF3] @
     ''n del impacto meteorol'' @ [CHR 0xF3] @
     ''gico de la Agencia Estatal de Meteorolog'' @ [CHR 0xED] @ ''a (AEMET).'' @
     [CHR 0x0A] @
     ''Tu objetivo es proporcionar respuestas precisas y claras basadas '' @ [CHR 0xFA] @
     ''nicamente en el contenido del pliego.'' @
     [CHR 0x0A, CHR 0x0A] @
     ''Recibir'' @ [CHR 0xE1] @ ''s:'' @
     [CHR 0x0A] @
     ''1. El historial de la conversaci'' @ [CHR 0xF3] @ ''n actual'' @
     [CHR 0x0A] @
     ''2. La '' @ [CHR 0xFA] @ ''ltima consulta del usuario'' @
     [CHR 0x0A] @
     ''3. Fragmentos relevantes extra'' @ [CHR 0xED] @ ''dos del pliego'' @
     [CHR 0x0A, CHR 0x0A] @
     ''Instrucciones:'' @
     [CHR 0x0A] @
     ''- Utiliza el historial para entender el contexto'' @
     [CHR 0x0A] @
     ''- Responde con rigurosidad t'' @ [CHR 0xE9] @
     ''cnica, referenciando secciones y apartados del pliego'' @
     [CHR 0x0A] @
     ''- Si la informaci'' @ [CHR 0xF3] @
     ''n no se encuentra en los fragmentos, ind'' @ [CHR 0xED] @ ''calo claramente'' @
     [CHR 0x0A] @
     ''- S'' @ [CHR 0xE9] @ '' conciso y estructurado en tus respuestas'' @
     [CHR 0x0A] @
     ''- Cita textualmente partes del pliego cuando sea posible'' @
     [CHR 0x0A]"

section \<open>The retrying wrappers\<close>

text \<open>
  The body of the \<^verbatim>\<open>try\<close> of \<^verbatim>\<open>safe_generate_content\<close> once the response is there:
  \<open>Inr (Some t)\<close> is \<^verbatim>\<open>return t\<close>, \<open>Inr None\<close> is falling through to the
  \<^verbatim>\<open>time.sleep\<close>, \<open>Inl e\<close> is the exception that reading the response raises.
\<close>

fun response_text :: "response \<Rightarrow> exn + string option" where
  "response_text (Response None) = Inr None"
| "response_text (Response (Some [])) = Inr None"
| "response_text (Response (Some (c # cs))) =
     (case candidate_content c of
        None \<Rightarrow> Inl (AttributeError ''content'')
      | Some ct \<Rightarrow>
          (case content_parts ct of
             None \<Rightarrow> Inr None
           | Some [] \<Rightarrow> Inl (IndexError ''list index out of range'')
           | Some (p # ps) \<Rightarrow>
               (case part_text p of
                  None \<Rightarrow> Inl (AttributeError ''strip'')
                | Some t \<Rightarrow> Inr (Some (strip t)))))"

definition generate_fallback :: string where
  "generate_fallback =
     ''No se pudo generar una respuesta. Por favor, intenta reformular tu consulta.''"

text \<open>
  One iteration of \<^verbatim>\<open>for attempt in range(max_retries)\<close>: \<open>Some t\<close> when the iteration
  returns \<open>t\<close> from the function, \<open>None\<close> when the loop goes on.
\<close>

definition generate_attempt :: "'w services \<Rightarrow> string \<Rightarrow> nat \<Rightarrow> (string option, 'w) py" where
  "generate_attempt sv prompt attempt =
     py_try
       (py_bind (call_generate sv prompt) (\<lambda>response.
        py_bind (py_lift (response_text response)) (\<lambda>r.
        case r of
          Some t \<Rightarrow> py_return (Some t)
        | None \<Rightarrow> py_bind (time_sleep 1) (\<lambda>_. py_return None))))
       (\<lambda>e.
        py_bind (st_warning (''Error en intento '' @ str_nat (attempt + 1) @ '': '' @ str_exn e)) (\<lambda>_.
        py_bind (time_sleep 1) (\<lambda>_. py_return None)))"

text \<open>The iterations from \<open>attempt\<close> on, \<open>k\<close> of them being left, and the final \<^verbatim>\<open>return\<close>.\<close>

fun generate_loop :: "'w services \<Rightarrow> string \<Rightarrow> nat \<Rightarrow> nat \<Rightarrow> (string, 'w) py" where
  "generate_loop sv prompt attempt 0 = py_return generate_fallback"
| "generate_loop sv prompt attempt (Suc k) =
     py_bind (generate_attempt sv prompt attempt) (\<lambda>r.
     case r of
       Some t \<Rightarrow> py_return t
     | None \<Rightarrow> generate_loop sv prompt (Suc attempt) k)"

definition safe_generate_content :: "'w services \<Rightarrow> string \<Rightarrow> nat \<Rightarrow> (string, 'w) py" where
  "safe_generate_content sv prompt max_retries = generate_loop sv prompt 0 max_retries"

text \<open>
  The same for \<^verbatim>\<open>safe_embed_content\<close>: \<^verbatim>\<open>'embedding' in embed\<close> raises on a value that is
  no container, and \<^verbatim>\<open>embed.get('embedding')\<close> is returned whatever it is.
\<close>

fun embed_value :: "embed_response \<Rightarrow> exn + embedding option" where
  "embed_value EmbedOther = Inl (TypeError ''argument is not iterable'')"
| "embed_value (EmbedDict None) = Inr None"
| "embed_value (EmbedDict (Some v)) = Inr (Some v)"

definition embed_attempt :: "'w services \<Rightarrow> string \<Rightarrow> nat \<Rightarrow> (embedding option, 'w) py" where
  "embed_attempt sv content attempt =
     py_try
       (py_bind (call_embed sv content) (\<lambda>embed.
        py_bind (py_lift (embed_value embed)) (\<lambda>r.
        case r of
          Some v \<Rightarrow> py_return (Some v)
        | None \<Rightarrow> py_bind (time_sleep 1) (\<lambda>_. py_return None))))
       (\<lambda>e.
        py_bind (st_warning (''Error al generar embedding (intento '' @ str_nat (attempt + 1)
                             @ ''): '' @ str_exn e)) (\<lambda>_.
        py_bind (time_sleep 1) (\<lambda>_. py_return None)))"

fun embed_loop :: "'w services \<Rightarrow> string \<Rightarrow> nat \<Rightarrow> nat \<Rightarrow> (embedding, 'w) py" where
  "embed_loop sv content attempt 0 = py_return PyNone"
| "embed_loop sv content attempt (Suc k) =
     py_bind (embed_attempt sv content attempt) (\<lambda>r.
     case r of
       Some v \<Rightarrow> py_return v
     | None \<Rightarrow> embed_loop sv content (Suc attempt) k)"

definition safe_embed_content :: "'w services \<Rightarrow> string \<Rightarrow> nat \<Rightarrow> (embedding, 'w) py" where
  "safe_embed_content sv content max_retries = embed_loop sv content 0 max_retries"

text \<open>Both are only ever called with the default \<^verbatim>\<open>max_retries=3\<close>.\<close>

definition default_max_retries :: nat where
  "default_max_retries = 3"

section \<open>Conversation state\<close>

text \<open>
  A retrieved fragment is the dictionary with the keys \<^verbatim>\<open>texto\<close>, \<^verbatim>\<open>documento\<close> and
  \<^verbatim>\<open>score\<close>; a turn is the dictionary with the keys \<^verbatim>\<open>role\<close> and \<^verbatim>\<open>content\<close> and, for
  the assistant only, \<^verbatim>\<open>fragments\<close>. \<^verbatim>\<open>st.session_state.conversation\<close> is the list of the
  turns.
\<close>

record fragment =
  texto :: string
  documento :: string
  score :: pyfloat

record turn =
  role :: string
  content :: string
  fragments :: "fragment list option"

definition format_history :: "turn list \<Rightarrow> string" where
  "format_history conversation =
     join [CHR 0x0A] (map (\<lambda>msg. role msg @ '': '' @ content msg) conversation)"

section \<open>The stages of a turn\<close>

subsection \<open>Prompts and fixed texts\<close>

definition expand_prompt :: "string \<Rightarrow> string" where
  "expand_prompt user_input =
     ''Expande ling'' @ [CHR 0xFC, CHR 0xED] @
     ''sticamente esta consulta sobre el pliego de AEMET para mejorar su vectorizaci'' @
     [CHR 0xF3] @ ''n: '' @ [CHR 0x22] @ user_input @ [CHR 0x22] @
     ''. Tu respuesta deber '' @ [CHR 0xFA] @
     ''nicamente la consulta expandida, nada m'' @ [CHR 0xE1] @
     ''s. Ten en cuenta que tu respuesta se vectorizar'' @ [CHR 0xE1] @
     '' directamente para un RAG, por lo que responde '' @ [CHR 0xFA] @
     ''nicamente con lo necesario.''"

definition synth_prompt :: "string \<Rightarrow> string \<Rightarrow> string" where
  "synth_prompt ctx user_input =
     ''Dado estos fragmentos del pliego:'' @ [CHR 0x0A] @ ctx @ [CHR 0x0A, CHR 0x0A] @
     ''Sintetiza y organiza la informaci'' @ [CHR 0xF3] @
     ''n en un contexto claro para el asistente. Ten en cuenta que tu respuesta servir'' @
     [CHR 0xE1] @
     '' como fuente de datos a un LLM para responder a la siguiente consulta: '' @ user_input"

definition no_fragments_context :: string where
  "no_fragments_context =
     ''No se encontraron fragmentos relevantes en el pliego para esta consulta.''"

definition final_prompt :: "string \<Rightarrow> string \<Rightarrow> string \<Rightarrow> string" where
  "final_prompt formatted synthesized_context user_input =
     CUSTOM_PROMPT @ [CHR 0x0A, CHR 0x0A] @ ''Historial de conversaci'' @ [CHR 0xF3] @ ''n:'' @
     [CHR 0x0A] @ formatted @ [CHR 0x0A, CHR 0x0A] @
     ''Contexto sintetizado:'' @ [CHR 0x0A] @ synthesized_context @ [CHR 0x0A, CHR 0x0A] @
     ''Consulta actual: '' @ user_input"

definition answer_apology :: string where
  "answer_apology =
     ''Lo siento, no pude generar una respuesta. Por favor, intenta reformular tu consulta.''"

definition error_answer :: "exn \<Rightarrow> string" where
  "error_answer e =
     ''Se produjo un error al procesar tu consulta: '' @ str_exn e @
     ''. Por favor, int'' @ [CHR 0xE9] @ ''ntalo de nuevo.''"

subsection \<open>Retrieval\<close>

text \<open>\<^verbatim>\<open>if query_vector:\<close> takes the truth value of whatever the embedding stage returned.\<close>

fun truth_value :: "embedding \<Rightarrow> exn + bool" where
  "truth_value PyNone = Inr False"
| "truth_value (PyList xs) = Inr (xs \<noteq> [])"
| "truth_value (PyObject t) = t"

text \<open>\<^verbatim>\<open>query_res.get('matches', [])\<close>, as the sequence the \<^verbatim>\<open>for\<close> runs over.\<close>

fun get_matches :: "query_res \<Rightarrow> exn + match list" where
  "get_matches QueryResOther = Inl (AttributeError ''get'')"
| "get_matches (QueryRes None) = Inr []"
| "get_matches (QueryRes (Some (Matches ms))) = Inr ms"
| "get_matches (QueryRes (Some MatchesOther)) = Inl (TypeError ''object is not iterable'')"

text \<open>\<^verbatim>\<open>d.get(key, default)\<close> on a mapping.\<close>

definition dict_get :: "('k \<rightharpoonup> 'v) \<Rightarrow> 'k \<Rightarrow> 'v \<Rightarrow> 'v" where
  "dict_get d k dflt = (case d k of None \<Rightarrow> dflt | Some v \<Rightarrow> v)"

text \<open>
  The body of the loop over the matches: the fragment to append, if any, or the exception
  raised by a match of the wrong shape.
\<close>

fun match_fragment :: "match \<Rightarrow> exn + fragment option" where
  "match_fragment MatchOther = Inl (AttributeError ''get'')"
| "match_fragment (Match sc md) =
     (case (case sc of None \<Rightarrow> Score (Finite 0) | Some v \<Rightarrow> v) of
        ScoreOther \<Rightarrow> Inl (TypeError ''>= not supported'')
      | Score x \<Rightarrow>
          if float_ge x MIN_SIMILARITY_SCORE then
            (case (case md of None \<Rightarrow> Metadata Map.empty | Some v \<Rightarrow> v) of
               MetadataOther \<Rightarrow> Inl (AttributeError ''get'')
             | Metadata meta \<Rightarrow>
                 Inr (Some \<lparr>texto = dict_get meta ''texto'' [],
                            documento = dict_get meta ''documento'' [],
                            score = x\<rparr>))
          else Inr None)"

text \<open>
  The loop appends to \<open>retrieved\<close>. When a match raises, the loop ends there and the list
  keeps what was appended before: the result is the exception, if any, and the list.
\<close>

fun for_matches :: "match list \<Rightarrow> fragment list \<Rightarrow> exn option \<times> fragment list" where
  "for_matches [] retrieved = (None, retrieved)"
| "for_matches (m # ms) retrieved =
     (case match_fragment m of
        Inl e \<Rightarrow> (Some e, retrieved)
      | Inr None \<Rightarrow> for_matches ms retrieved
      | Inr (Some f) \<Rightarrow> for_matches ms (retrieved @ [f]))"

definition scan_query_res :: "query_res \<Rightarrow> exn option \<times> fragment list" where
  "scan_query_res query_res =
     (case get_matches query_res of
        Inl e \<Rightarrow> (Some e, [])
      | Inr ms \<Rightarrow> for_matches ms [])"

text \<open>
  Stage 3. The inner \<^verbatim>\<open>try\<close> covers the query and the loop; its handler shows the error
  and leaves \<open>retrieved\<close> as it is.
\<close>

definition retrieve :: "'w services \<Rightarrow> embedding \<Rightarrow> (fragment list, 'w) py" where
  "retrieve sv query_vector =
     py_bind (py_lift (truth_value query_vector)) (\<lambda>b.
     if b then
       py_bind
         (py_try
            (py_bind (call_query sv query_vector TOP_K True) (\<lambda>query_res.
             py_return (scan_query_res query_res)))
            (\<lambda>e. py_return (Some e, [])))
         (\<lambda>(raised, retrieved).
            case raised of
              None \<Rightarrow> py_return retrieved
            | Some e \<Rightarrow>
                py_bind (st_error (''Error al consultar Pinecone: '' @ str_exn e)) (\<lambda>_.
                py_return retrieved))
     else py_return [])"

subsection \<open>Synthesis and answer\<close>

definition fragments_ctx :: "fragment list \<Rightarrow> string" where
  "fragments_ctx retrieved =
     join ([CHR 0x0A] @ ''---'' @ [CHR 0x0A])
       (map (\<lambda>f. ''['' @ documento f @ '']: '' @ texto f) retrieved)"

definition synthesize :: "'w services \<Rightarrow> fragment list \<Rightarrow> string \<Rightarrow> (string, 'w) py" where
  "synthesize sv retrieved user_input =
     (if retrieved \<noteq> [] then
        py_bind (safe_generate_content sv (synth_prompt (fragments_ctx retrieved) user_input)
                   default_max_retries) (\<lambda>synthesized_context.
        py_bind (print [''Los fragmentos sintetizados son: '', synthesized_context]) (\<lambda>_.
        py_return synthesized_context))
      else py_return no_fragments_context)"

text \<open>
  Stage 5. \<open>conversation\<close> already ends with the turn of the current input, which
  \<^verbatim>\<open>conversation[:-1]\<close> leaves out of the history.
\<close>

definition generate_answer :: "'w services \<Rightarrow> turn list \<Rightarrow> string \<Rightarrow> string \<Rightarrow> (string, 'w) py" where
  "generate_answer sv conversation synthesized_context user_input =
     py_bind (safe_generate_content sv
                (final_prompt (format_history (butlast conversation)) synthesized_context user_input)
                default_max_retries) (\<lambda>answer.
     py_return (if answer = [] then answer_apology else answer))"

subsection \<open>The turn\<close>

text \<open>The body of the outer \<^verbatim>\<open>try\<close>: the answer and the fragments of the turn.\<close>

definition pipeline :: "'w services \<Rightarrow> string \<Rightarrow> turn list \<Rightarrow> (string \<times> fragment list, 'w) py" where
  "pipeline sv user_input conversation =
     py_bind (safe_generate_content sv (expand_prompt user_input) default_max_retries)
       (\<lambda>expanded_query.
     py_bind (print [''La consulta expandida es: '', expanded_query]) (\<lambda>_.
     py_bind (safe_embed_content sv expanded_query default_max_retries) (\<lambda>query_vector.
     py_bind (retrieve sv query_vector) (\<lambda>retrieved.
     py_bind (synthesize sv retrieved user_input) (\<lambda>synthesized_context.
     py_bind (generate_answer sv conversation synthesized_context user_input) (\<lambda>answer.
     py_return (answer, retrieved)))))))"

text \<open>The outer \<^verbatim>\<open>try\<close> with its handler, which sets both the answer and the fragments.\<close>

definition respond :: "'w services \<Rightarrow> string \<Rightarrow> turn list \<Rightarrow> (string \<times> fragment list, 'w) py" where
  "respond sv user_input conversation =
     py_try (pipeline sv user_input conversation) (\<lambda>e. py_return (error_answer e, []))"

text \<open>
  One run of the script on what \<^verbatim>\<open>st.chat_input\<close> gave: \<^verbatim>\<open>None\<close> or a text, of which
  the empty one is false as well. The result is the conversation of the session state.
\<close>

definition script :: "'w services \<Rightarrow> string option \<Rightarrow> turn list \<Rightarrow> (turn list, 'w) py" where
  "script sv chat_input conversation =
     (case chat_input of
        None \<Rightarrow> py_return conversation
      | Some user_input \<Rightarrow>
          if user_input = [] then py_return conversation
          else
            (let conversation1 =
                   conversation @ [\<lparr>role = ''Usuario'', content = user_input, fragments = None\<rparr>]
             in py_bind (respond sv user_input conversation1) (\<lambda>(answer, retrieved).
                py_return
                  (conversation1 @
                   [\<lparr>role = ''Asistente'', content = answer, fragments = Some retrieved\<rparr>]))))"

text \<open>
  A session: the script runs once for each input, on the conversation the run before
  left in the session state; it starts from the empty conversation.
\<close>

fun session :: "'w services \<Rightarrow> string option list \<Rightarrow> turn list \<Rightarrow> (turn list, 'w) py" where
  "session sv [] conversation = py_return conversation"
| "session sv (chat_input # rest) conversation =
     py_bind (script sv chat_input conversation) (\<lambda>conversation'.
     session sv rest conversation')"

section \<open>Notions used to state the properties\<close>

text \<open>The three components of the outcome of a run.\<close>

definition result_of :: "(exn + 'a) \<times> event list \<times> 'w \<Rightarrow> exn + 'a" where
  "result_of out = fst out"

definition events_of :: "(exn + 'a) \<times> event list \<times> 'w \<Rightarrow> event list" where
  "events_of out = fst (snd out)"

definition world_of :: "(exn + 'a) \<times> event list \<times> 'w \<Rightarrow> 'w" where
  "world_of out = snd (snd out)"

fun is_generate_call :: "event \<Rightarrow> bool" where
  "is_generate_call (GenerateCall p) = True"
| "is_generate_call _ = False"

fun is_embed_call :: "event \<Rightarrow> bool" where
  "is_embed_call (EmbedCall p) = True"
| "is_embed_call _ = False"

fun is_index_query :: "event \<Rightarrow> bool" where
  "is_index_query (IndexQuery v k m) = True"
| "is_index_query _ = False"

text \<open>
  What one attempt of a wrapper makes of the outcome of the call: the value the attempt
  returns, or \<open>None\<close> when the call raised, reading the response raised, or the response
  lacks what is looked for.
\<close>

definition generated_text :: "exn + response \<Rightarrow> string option" where
  "generated_text r =
     (case r of
        Inl e \<Rightarrow> None
      | Inr response \<Rightarrow> (case response_text response of Inl e \<Rightarrow> None | Inr t \<Rightarrow> t))"

definition embedded_value :: "exn + embed_response \<Rightarrow> embedding option" where
  "embedded_value r =
     (case r of
        Inl e \<Rightarrow> None
      | Inr emb \<Rightarrow> (case embed_value emb of Inl e \<Rightarrow> None | Inr v \<Rightarrow> v))"

text \<open>
  The outcomes of \<open>k\<close> calls of a service made one after the other from a state of the
  world, with nothing else happening to the world in between.
\<close>

fun successive_calls :: "('w \<Rightarrow> 'r \<times> 'w) \<Rightarrow> nat \<Rightarrow> 'w \<Rightarrow> 'r list" where
  "successive_calls call 0 w = []"
| "successive_calls call (Suc k) w =
     (case call w of (r, w') \<Rightarrow> r # successive_calls call k w')"

text \<open>An input on which the script does something: a text that is not empty.\<close>

fun submitted :: "string option \<Rightarrow> bool" where
  "submitted None = False"
| "submitted (Some user_input) = (user_input \<noteq> [])"

text \<open>A user turn followed by an assistant turn that carries fragments, and so on.\<close>

fun alternating :: "turn list \<Rightarrow> bool" where
  "alternating [] = True"
| "alternating [t] = False"
| "alternating (u # a # rest) =
     (role u = ''Usuario'' \<and> fragments u = None \<and>
      role a = ''Asistente'' \<and> fragments a \<noteq> None \<and> alternating rest)"

text \<open>The score a match is filtered on, and a match that the loop reads without raising.\<close>

fun match_score_or_default :: "match \<Rightarrow> pyfloat" where
  "match_score_or_default (Match (Some (Score x)) md) = x"
| "match_score_or_default m = Finite 0"

fun well_formed :: "match \<Rightarrow> bool" where
  "well_formed MatchOther = False"
| "well_formed (Match sc md) = (sc \<noteq> Some ScoreOther \<and> md \<noteq> Some MetadataOther)"

section \<open>Example services\<close>

text \<open>
  Services on which the properties below are exercised. The world is the number of calls
  made so far. The first ones answer well: a text with white space around it, a vector,
  and four matches with the scores 0.91, 0.73, 0.40 and 0.60, the last two without
  a source label or without metadata.
\<close>

definition text_response :: "string \<Rightarrow> response" where
  "text_response t = Response (Some [Candidate (Some (Content (Some [Part (Some t)])))])"

definition example_matches :: "match list" where
  "example_matches =
     [Match (Some (Score (Finite 0.91)))
        (Some (Metadata [''texto'' \<mapsto> ''Objeto del contrato'', ''documento'' \<mapsto> ''1.1''])),
      Match (Some (Score (Finite 0.73)))
        (Some (Metadata [''texto'' \<mapsto> ''Plazo de ejecucion'', ''documento'' \<mapsto> ''2.3''])),
      Match (Some (Score (Finite 0.40)))
        (Some (Metadata [''texto'' \<mapsto> ''Penalidades'', ''documento'' \<mapsto> ''7.2''])),
      Match (Some (Score (Finite 0.60))) (Some (Metadata [''texto'' \<mapsto> ''Presupuesto'']))]"

definition example_services :: "nat services" where
  "example_services =
     \<lparr>generate_content = (\<lambda>prompt n. (Inr (text_response '' El plazo es de 12 meses. ''), Suc n)),
      embed_content = (\<lambda>q n. (Inr (EmbedDict (Some (PyList [1, 0]))), Suc n)),
      index_query = (\<lambda>v k md n. (Inr (QueryRes (Some (Matches example_matches))), Suc n))\<rparr>"

text \<open>
  Services that never give anything usable: the first call raises, the second returns a
  response without candidates or a mapping without the key, every later one a response
  that cannot be read or a value that is no mapping.
\<close>

definition failing_services :: "nat services" where
  "failing_services =
     \<lparr>generate_content = (\<lambda>prompt n.
        (if n = 0 then Inl (Exception ''503 Service Unavailable'')
         else if n = 1 then Inr (Response None)
         else Inr (Response (Some [Candidate None])), Suc n)),
      embed_content = (\<lambda>q n.
        (if n = 0 then Inl (Exception ''503 Service Unavailable'')
         else if n = 1 then Inr (EmbedDict None)
         else Inr EmbedOther, Suc n)),
      index_query = (\<lambda>v k md n. (Inl (Exception ''503 Service Unavailable''), Suc n))\<rparr>"

text \<open>Services whose embedding is the empty list.\<close>

definition empty_vector_services :: "nat services" where
  "empty_vector_services = example_services
     \<lparr>embed_content := (\<lambda>q n. (Inr (EmbedDict (Some (PyList []))), Suc n))\<rparr>"

text \<open>Services whose embedding is an object without a truth value.\<close>

definition ambiguous_vector_services :: "nat services" where
  "ambiguous_vector_services = example_services
     \<lparr>embed_content := (\<lambda>q n.
        (Inr (EmbedDict (Some (PyObject (Inl (ValueError ''The truth value is ambiguous''))))),
         Suc n))\<rparr>"

text \<open>Services whose index returns nothing that reaches the threshold.\<close>

definition no_match_services :: "nat services" where
  "no_match_services = example_services
     \<lparr>index_query := (\<lambda>v k md n.
        (Inr (QueryRes (Some (Matches [Match (Some (Score (Finite 0.40))) None, Match None None]))),
         Suc n))\<rparr>"

section \<open>Calls that raise what is no instance of Exception\<close>

text \<open>
  Both wrappers catch with \<^verbatim>\<open>except Exception\<close>. Python has exceptions that are no
  instances of \<^verbatim>\<open>Exception\<close>: \<^verbatim>\<open>KeyboardInterrupt\<close>, \<^verbatim>\<open>SystemExit\<close> and \<^verbatim>\<open>GeneratorExit\<close>
  derive from \<^verbatim>\<open>BaseException\<close> directly, and such a handler lets them pass. The type
  \<open>exn\<close> holds the instances of \<^verbatim>\<open>Exception\<close> only, so the services above cannot raise
  one of the others. Here the two wrappers are written for the calls as they are in
  Python: what a call raises is a \<open>base_exn\<close>, and the handler of an attempt catches it
  only when it is an \<open>Exc\<close>.
\<close>

datatype base_exn = Exc exn | KeyboardInterrupt | SystemExit | GeneratorExit

record 'w base_services =
  base_generate_content :: "string \<Rightarrow> 'w \<Rightarrow> (base_exn + response) \<times> 'w"
  base_embed_content :: "string \<Rightarrow> 'w \<Rightarrow> (base_exn + embed_response) \<times> 'w"

type_synonym ('a, 'w) base_py = "'w \<Rightarrow> (base_exn + 'a) \<times> event list \<times> 'w"

definition base_return :: "'a \<Rightarrow> ('a, 'w) base_py" where
  "base_return x w = (Inr x, [], w)"

definition base_bind :: "('a, 'w) base_py \<Rightarrow> ('a \<Rightarrow> ('b, 'w) base_py) \<Rightarrow> ('b, 'w) base_py" where
  "base_bind m f w =
     (case m w of
        (Inl b, ev, w') \<Rightarrow> (Inl b, ev, w')
      | (Inr x, ev, w') \<Rightarrow> (case f x w' of (r, ev', w'') \<Rightarrow> (r, ev @ ev', w'')))"

text \<open>
  \<^verbatim>\<open>try: m  except Exception as e: h e\<close>: the handler runs for an instance of
  \<^verbatim>\<open>Exception\<close>, anything else that \<open>m\<close> raises goes on to the caller.
\<close>

definition except_Exception ::
    "('a, 'w) base_py \<Rightarrow> (exn \<Rightarrow> ('a, 'w) base_py) \<Rightarrow> ('a, 'w) base_py" where
  "except_Exception m h w =
     (case m w of
        (Inl b, ev, w') \<Rightarrow>
          (case b of
             Exc e \<Rightarrow> (case h e w' of (r, ev', w'') \<Rightarrow> (r, ev @ ev', w''))
           | KeyboardInterrupt \<Rightarrow> (Inl b, ev, w')
           | SystemExit \<Rightarrow> (Inl b, ev, w')
           | GeneratorExit \<Rightarrow> (Inl b, ev, w'))
      | (Inr x, ev, w') \<Rightarrow> (Inr x, ev, w'))"

text \<open>
  A piece of Python that raises instances of \<^verbatim>\<open>Exception\<close> only, as the reading of a
  response, a notice or a wait above, among pieces that may raise anything.
\<close>

definition base_of :: "('a, 'w) py \<Rightarrow> ('a, 'w) base_py" where
  "base_of m w = (case m w of (r, ev, w') \<Rightarrow> (map_sum Exc id r, ev, w'))"

definition base_call_generate :: "'w base_services \<Rightarrow> string \<Rightarrow> (response, 'w) base_py" where
  "base_call_generate sv prompt w =
     (case base_generate_content sv prompt w of (r, w') \<Rightarrow> (r, [GenerateCall prompt], w'))"

definition base_call_embed :: "'w base_services \<Rightarrow> string \<Rightarrow> (embed_response, 'w) base_py" where
  "base_call_embed sv q w =
     (case base_embed_content sv q w of (r, w') \<Rightarrow> (r, [EmbedCall q], w'))"

text \<open>\<^verbatim>\<open>safe_generate_content\<close>, one iteration, the loop and the function.\<close>

definition base_generate_attempt ::
    "'w base_services \<Rightarrow> string \<Rightarrow> nat \<Rightarrow> (string option, 'w) base_py" where
  "base_generate_attempt sv prompt attempt =
     except_Exception
       (base_bind (base_call_generate sv prompt) (\<lambda>response.
        base_bind (base_of (py_lift (response_text response))) (\<lambda>r.
        case r of
          Some t \<Rightarrow> base_return (Some t)
        | None \<Rightarrow> base_bind (base_of (time_sleep 1)) (\<lambda>_. base_return None))))
       (\<lambda>e.
        base_bind (base_of (st_warning (''Error en intento '' @ str_nat (attempt + 1) @ '': ''
                                         @ str_exn e))) (\<lambda>_.
        base_bind (base_of (time_sleep 1)) (\<lambda>_. base_return None)))"

fun base_generate_loop ::
    "'w base_services \<Rightarrow> string \<Rightarrow> nat \<Rightarrow> nat \<Rightarrow> (string, 'w) base_py" where
  "base_generate_loop sv prompt attempt 0 = base_return generate_fallback"
| "base_generate_loop sv prompt attempt (Suc k) =
     base_bind (base_generate_attempt sv prompt attempt) (\<lambda>r.
     case r of
       Some t \<Rightarrow> base_return t
     | None \<Rightarrow> base_generate_loop sv prompt (Suc attempt) k)"

definition base_safe_generate_content ::
    "'w base_services \<Rightarrow> string \<Rightarrow> nat \<Rightarrow> (string, 'w) base_py" where
  "base_safe_generate_content sv prompt max_retries = base_generate_loop sv prompt 0 max_retries"

text \<open>\<^verbatim>\<open>safe_embed_content\<close>, one iteration, the loop and the function.\<close>

definition base_embed_attempt ::
    "'w base_services \<Rightarrow> string \<Rightarrow> nat \<Rightarrow> (embedding option, 'w) base_py" where
  "base_embed_attempt sv q attempt =
     except_Exception
       (base_bind (base_call_embed sv q) (\<lambda>emb.
        base_bind (base_of (py_lift (embed_value emb))) (\<lambda>r.
        case r of
          Some v \<Rightarrow> base_return (Some v)
        | None \<Rightarrow> base_bind (base_of (time_sleep 1)) (\<lambda>_. base_return None))))
       (\<lambda>e.
        base_bind (base_of (st_warning (''Error al generar embedding (intento ''
                                         @ str_nat (attempt + 1) @ ''): '' @ str_exn e))) (\<lambda>_.
        base_bind (base_of (time_sleep 1)) (\<lambda>_. base_return None)))"

fun base_embed_loop ::
    "'w base_services \<Rightarrow> string \<Rightarrow> nat \<Rightarrow> nat \<Rightarrow> (embedding, 'w) base_py" where
  "base_embed_loop sv q attempt 0 = base_return PyNone"
| "base_embed_loop sv q attempt (Suc k) =
     base_bind (base_embed_attempt sv q attempt) (\<lambda>r.
     case r of
       Some v \<Rightarrow> base_return v
     | None \<Rightarrow> base_embed_loop sv q (Suc attempt) k)"

definition base_safe_embed_content ::
    "'w base_services \<Rightarrow> string \<Rightarrow> nat \<Rightarrow> (embedding, 'w) base_py" where
  "base_safe_embed_content sv q max_retries = base_embed_loop sv q 0 max_retries"

text \<open>
  Services that raise instances of \<^verbatim>\<open>Exception\<close> only, taken as services that may raise
  anything.
\<close>

definition as_base :: "'w services \<Rightarrow> 'w base_services" where
  "as_base sv =
     \<lparr>base_generate_content =
        (\<lambda>prompt w. case generate_content sv prompt w of (r, w') \<Rightarrow> (map_sum Exc id r, w')),
      base_embed_content =
        (\<lambda>q w. case embed_content sv q w of (r, w') \<Rightarrow> (map_sum Exc id r, w'))\<rparr>"

text \<open>\<^verbatim>\<open>isinstance(b, Exception)\<close>.\<close>

fun is_Exception :: "base_exn \<Rightarrow> bool" where
  "is_Exception (Exc e) = True"
| "is_Exception KeyboardInterrupt = False"
| "is_Exception SystemExit = False"
| "is_Exception GeneratorExit = False"

text \<open>
  The outcome of a call that an \<^verbatim>\<open>except Exception\<close> around it deals with: the call
  returned, or what it raised is an instance of \<^verbatim>\<open>Exception\<close>.
\<close>

fun returns_or_raises_Exception :: "base_exn + 'a \<Rightarrow> bool" where
  "returns_or_raises_Exception (Inr x) = True"
| "returns_or_raises_Exception (Inl (Exc e)) = True"
| "returns_or_raises_Exception (Inl KeyboardInterrupt) = False"
| "returns_or_raises_Exception (Inl SystemExit) = False"
| "returns_or_raises_Exception (Inl GeneratorExit) = False"

text \<open>What an attempt returns out of the outcome of the call, if it returns.\<close>

definition base_generated_text :: "base_exn + response \<Rightarrow> string option" where
  "base_generated_text r =
     (case r of
        Inl b \<Rightarrow> None
      | Inr response \<Rightarrow> (case response_text response of Inl e \<Rightarrow> None | Inr t \<Rightarrow> t))"

definition base_embedded_value :: "base_exn + embed_response \<Rightarrow> embedding option" where
  "base_embedded_value r =
     (case r of
        Inl b \<Rightarrow> None
      | Inr emb \<Rightarrow> (case embed_value emb of Inl e \<Rightarrow> None | Inr v \<Rightarrow> v))"

text \<open>
  Services interrupted during the second call: the first call of each raises an instance
  of \<^verbatim>\<open>Exception\<close>, the second raises \<^verbatim>\<open>KeyboardInterrupt\<close> in the model and
  \<^verbatim>\<open>SystemExit\<close> in the embedding service, and any later one would answer well.
\<close>

definition interrupted_services :: "nat base_services" where
  "interrupted_services =
     \<lparr>base_generate_content = (\<lambda>prompt n.
        (if n = 0 then Inl (Exc (Exception ''503 Service Unavailable''))
         else if n = 1 then Inl KeyboardInterrupt
         else Inr (text_response ''El plazo es de 12 meses.''), Suc n)),
      base_embed_content = (\<lambda>q n.
        (if n = 0 then Inl (Exc (Exception ''503 Service Unavailable''))
         else if n = 1 then Inl SystemExit
         else Inr (EmbedDict (Some (PyList [1, 0]))), Suc n))\<rparr>"

section \<open>Properties of the wrappers\<close>

lemma generate_attempt_eq:
  "generate_attempt sv prompt attempt w =
     (case generate_content sv prompt w of (r, w') \<Rightarrow>
        (case generated_text r of
           Some t \<Rightarrow> (Inr (Some t), [GenerateCall prompt], w')
         | None \<Rightarrow>
            (Inr None,
             GenerateCall prompt #
               (case r of
                  Inl e \<Rightarrow> [StWarning (''Error en intento '' @ str_nat (attempt + 1) @ '': '' @ str_exn e)]
                | Inr response \<Rightarrow>
                    (case response_text response of
                       Inl e \<Rightarrow> [StWarning (''Error en intento '' @ str_nat (attempt + 1) @ '': '' @ str_exn e)]
                     | Inr t \<Rightarrow> [])) @ [Sleep 1], w')))"
  by (simp add: generate_attempt_def py_try_def py_bind_def call_generate_def py_lift_def
      py_return_def time_sleep_def st_warning_def emit_def generated_text_def
      split: prod.splits sum.splits option.splits)

lemma generate_attempt_cases:
  obtains (returns) t r w' where
      "generate_content sv prompt w = (r, w')" "generated_text r = Some t"
      "generate_attempt sv prompt attempt w = (Inr (Some t), [GenerateCall prompt], w')"
  | (fails) r w' notices where
      "generate_content sv prompt w = (r, w')" "generated_text r = None"
      "generate_attempt sv prompt attempt w = (Inr None, GenerateCall prompt # notices @ [Sleep 1], w')"
      "set notices \<subseteq> range StWarning"
proof (cases "generate_content sv prompt w")
  case (Pair r w')
  show thesis
  proof (cases "generated_text r")
    case None
    show thesis
      by (rule fails[OF Pair None])
         (auto simp: generate_attempt_eq Pair None split: sum.splits)
  next
    case (Some t)
    show thesis
      by (rule returns[OF Pair Some]) (simp add: generate_attempt_eq Pair Some)
  qed
qed

lemma generate_loop_spec:
  "\<exists>t ev w'. generate_loop sv prompt attempt k w = (Inr t, ev, w')
     \<and> t = (case List.map_filter generated_text (successive_calls (generate_content sv prompt) k w) of
              [] \<Rightarrow> generate_fallback | t # ts \<Rightarrow> t)
     \<and> length (filter is_generate_call ev) \<le> k
     \<and> set ev \<subseteq> {GenerateCall prompt, Sleep 1} \<union> range StWarning"
proof (induction k arbitrary: attempt w)
  case 0
  show ?case by (simp add: py_return_def)
next
  case (Suc k)
  show ?case
  proof (cases rule: generate_attempt_cases[of sv prompt w attempt])
    case (returns t r w')
    have "generate_loop sv prompt attempt (Suc k) w = (Inr t, [GenerateCall prompt], w')"
      using returns(3) by (simp add: py_bind_def py_return_def)
    then show ?thesis
      using returns(1,2) by (simp add: List.map_filter_simps)
  next
    case (fails r w1 notices)
    from Suc[of "Suc attempt" w1] obtain t ev w' where ih:
      "generate_loop sv prompt (Suc attempt) k w1 = (Inr t, ev, w')"
      "t = (case List.map_filter generated_text (successive_calls (generate_content sv prompt) k w1) of
              [] \<Rightarrow> generate_fallback | t # ts \<Rightarrow> t)"
      "length (filter is_generate_call ev) \<le> k"
      "set ev \<subseteq> {GenerateCall prompt, Sleep 1} \<union> range StWarning"
      by blast
    have run: "generate_loop sv prompt attempt (Suc k) w
                 = (Inr t, (GenerateCall prompt # notices @ [Sleep 1]) @ ev, w')"
      using fails(3) ih(1) by (simp add: py_bind_def)
    have "length (filter is_generate_call notices) = 0"
      using fails(4) by (auto simp: filter_empty_conv)
    then show ?thesis
      using run fails(1,2,4) ih(2,3,4) by (auto simp: List.map_filter_simps)
  qed
qed

lemma embed_attempt_eq:
  "embed_attempt sv q attempt w =
     (case embed_content sv q w of (r, w') \<Rightarrow>
        (case embedded_value r of
           Some v \<Rightarrow> (Inr (Some v), [EmbedCall q], w')
         | None \<Rightarrow>
            (Inr None,
             EmbedCall q #
               (case r of
                  Inl e \<Rightarrow> [StWarning (''Error al generar embedding (intento '' @ str_nat (attempt + 1)
                                          @ ''): '' @ str_exn e)]
                | Inr emb \<Rightarrow>
                    (case embed_value emb of
                       Inl e \<Rightarrow> [StWarning (''Error al generar embedding (intento ''
                                               @ str_nat (attempt + 1) @ ''): '' @ str_exn e)]
                     | Inr t \<Rightarrow> [])) @ [Sleep 1], w')))"
  by (simp add: embed_attempt_def py_try_def py_bind_def call_embed_def py_lift_def
      py_return_def time_sleep_def st_warning_def emit_def embedded_value_def
      split: prod.splits sum.splits option.splits)

lemma embed_attempt_cases:
  obtains (returns) v r w' where
      "embed_content sv q w = (r, w')" "embedded_value r = Some v"
      "embed_attempt sv q attempt w = (Inr (Some v), [EmbedCall q], w')"
  | (fails) r w' notices where
      "embed_content sv q w = (r, w')" "embedded_value r = None"
      "embed_attempt sv q attempt w = (Inr None, EmbedCall q # notices @ [Sleep 1], w')"
      "set notices \<subseteq> range StWarning"
proof (cases "embed_content sv q w")
  case (Pair r w')
  show thesis
  proof (cases "embedded_value r")
    case None
    show thesis
      by (rule fails[OF Pair None])
         (auto simp: embed_attempt_eq Pair None split: sum.splits)
  next
    case (Some v)
    show thesis
      by (rule returns[OF Pair Some]) (simp add: embed_attempt_eq Pair Some)
  qed
qed

lemma embed_loop_spec:
  "\<exists>v ev w'. embed_loop sv q attempt k w = (Inr v, ev, w')
     \<and> v = (case List.map_filter embedded_value (successive_calls (embed_content sv q) k w) of
              [] \<Rightarrow> PyNone | v # vs \<Rightarrow> v)
     \<and> length (filter is_embed_call ev) \<le> k
     \<and> set ev \<subseteq> {EmbedCall q, Sleep 1} \<union> range StWarning
     \<and> (0 < k \<longrightarrow> (\<exists>rest. ev = EmbedCall q # rest))"
proof (induction k arbitrary: attempt w)
  case 0
  show ?case by (simp add: py_return_def)
next
  case (Suc k)
  show ?case
  proof (cases rule: embed_attempt_cases[of sv q w attempt])
    case (returns v r w')
    have "embed_loop sv q attempt (Suc k) w = (Inr v, [EmbedCall q], w')"
      using returns(3) by (simp add: py_bind_def py_return_def)
    then show ?thesis
      using returns(1,2) by (simp add: List.map_filter_simps)
  next
    case (fails r w1 notices)
    from Suc[of "Suc attempt" w1] obtain v ev w' where ih:
      "embed_loop sv q (Suc attempt) k w1 = (Inr v, ev, w')"
      "v = (case List.map_filter embedded_value (successive_calls (embed_content sv q) k w1) of
              [] \<Rightarrow> PyNone | v # vs \<Rightarrow> v)"
      "length (filter is_embed_call ev) \<le> k"
      "set ev \<subseteq> {EmbedCall q, Sleep 1} \<union> range StWarning"
      by blast
    have run: "embed_loop sv q attempt (Suc k) w
                 = (Inr v, (EmbedCall q # notices @ [Sleep 1]) @ ev, w')"
      using fails(3) ih(1) by (simp add: py_bind_def)
    have "length (filter is_embed_call notices) = 0"
      using fails(4) by (auto simp: filter_empty_conv)
    then show ?thesis
      using run fails(1,2,4) ih(2,3,4) by (auto simp: List.map_filter_simps)
  qed
qed

section \<open>Properties of the retrieval\<close>

lemma match_fragment_threshold:
  "match_fragment m = Inr (Some f) \<Longrightarrow> float_ge (score f) MIN_SIMILARITY_SCORE"
  by (cases m) (auto split: option.splits score_field.splits metadata_field.splits if_splits)

lemma match_fragment_score:
  "match_fragment m = Inr (Some f) \<Longrightarrow> score f = match_score_or_default m"
  by (cases m) (auto split: option.splits score_field.splits metadata_field.splits if_splits)

lemma match_fragment_dropped:
  "match_fragment m = Inr None \<Longrightarrow> \<not> float_ge (match_score_or_default m) MIN_SIMILARITY_SCORE"
  by (cases m) (auto split: option.splits score_field.splits metadata_field.splits if_splits)

lemma match_fragment_well_formed:
  "well_formed m \<Longrightarrow> \<exists>r. match_fragment m = Inr r"
  by (cases m) (auto split: option.splits score_field.splits metadata_field.splits)

lemma for_matches_threshold:
  "\<forall>f\<in>set retrieved. float_ge (score f) MIN_SIMILARITY_SCORE \<Longrightarrow>
   \<forall>f\<in>set (snd (for_matches ms retrieved)). float_ge (score f) MIN_SIMILARITY_SCORE"
proof (induction ms arbitrary: retrieved)
  case Nil
  then show ?case by simp
next
  case (Cons m ms)
  show ?case
  proof (cases "match_fragment m")
    case (Inl e)
    then show ?thesis using Cons.prems by simp
  next
    case (Inr r)
    show ?thesis
    proof (cases r)
      case None
      then show ?thesis using Inr Cons.IH[OF Cons.prems] by simp
    next
      case (Some f)
      have "\<forall>g\<in>set (retrieved @ [f]). float_ge (score g) MIN_SIMILARITY_SCORE"
        using Cons.prems match_fragment_threshold[of m f] Inr Some by auto
      from Cons.IH[OF this] show ?thesis using Inr Some by simp
    qed
  qed
qed

lemma for_matches_scores:
  "\<forall>m\<in>set ms. well_formed m \<Longrightarrow>
   fst (for_matches ms retrieved) = None \<and>
   map score (snd (for_matches ms retrieved)) =
     map score retrieved @
     filter (\<lambda>x. float_ge x MIN_SIMILARITY_SCORE) (map match_score_or_default ms)"
proof (induction ms arbitrary: retrieved)
  case Nil
  then show ?case by simp
next
  case (Cons m ms)
  from Cons.prems have wf: "well_formed m" and rest: "\<forall>m\<in>set ms. well_formed m" by simp_all
  from match_fragment_well_formed[OF wf] obtain r where r: "match_fragment m = Inr r" ..
  show ?case
  proof (cases r)
    case None
    then show ?thesis
      using r Cons.IH[OF rest, of retrieved] match_fragment_dropped[of m] by simp
  next
    case (Some f)
    then show ?thesis
      using r Cons.IH[OF rest, of "retrieved @ [f]"]
        match_fragment_threshold[of m f] match_fragment_score[of m f] by simp
  qed
qed

lemma scan_query_res_threshold:
  "\<forall>f\<in>set (snd (scan_query_res query_res)). float_ge (score f) MIN_SIMILARITY_SCORE"
proof (cases "get_matches query_res")
  case (Inl e)
  then show ?thesis by (simp add: scan_query_res_def)
next
  case (Inr ms)
  then show ?thesis
    using for_matches_threshold[of "[]" ms] by (simp add: scan_query_res_def)
qed

lemma retrieve_false:
  "truth_value query_vector = Inr False \<Longrightarrow> retrieve sv query_vector w = (Inr [], [], w)"
  by (simp add: retrieve_def py_bind_def py_lift_def py_return_def)

lemma retrieve_raise:
  "truth_value query_vector = Inl e \<Longrightarrow> retrieve sv query_vector w = (Inl e, [], w)"
  by (simp add: retrieve_def py_bind_def py_lift_def)

lemma retrieve_true:
  "truth_value query_vector = Inr True \<Longrightarrow>
   retrieve sv query_vector w =
     (case index_query sv query_vector TOP_K True w of (r, w') \<Rightarrow>
        (case (case r of Inl e \<Rightarrow> (Some e, []) | Inr query_res \<Rightarrow> scan_query_res query_res) of
           (None, retrieved) \<Rightarrow> (Inr retrieved, [IndexQuery query_vector TOP_K True], w')
         | (Some e, retrieved) \<Rightarrow>
             (Inr retrieved,
              [IndexQuery query_vector TOP_K True,
               StError (''Error al consultar Pinecone: '' @ str_exn e)], w')))"
  by (simp add: retrieve_def py_bind_def py_lift_def py_return_def py_try_def call_query_def
      st_error_def emit_def split: prod.splits sum.splits option.splits)

lemma retrieve_spec:
  "\<exists>r ev w'. retrieve sv query_vector w = (r, ev, w')
     \<and> (\<forall>fs. r = Inr fs \<longrightarrow> (\<forall>f\<in>set fs. float_ge (score f) MIN_SIMILARITY_SCORE))
     \<and> (ev \<noteq> [] \<longrightarrow> truth_value query_vector = Inr True)"
proof (cases "truth_value query_vector")
  case (Inl e)
  then show ?thesis by (simp add: retrieve_raise)
next
  case (Inr b)
  show ?thesis
  proof (cases b)
    case False
    then show ?thesis using Inr by (simp add: retrieve_false)
  next
    case True
    obtain r w' where q: "index_query sv query_vector TOP_K True w = (r, w')"
      by (cases "index_query sv query_vector TOP_K True w")
    show ?thesis
    proof (cases r)
      case (Inl e)
      then show ?thesis using Inr True q by (simp add: retrieve_true)
    next
      case (Inr query_res)
      obtain raised retrieved where s: "scan_query_res query_res = (raised, retrieved)"
        by (cases "scan_query_res query_res")
      have "\<forall>f\<in>set retrieved. float_ge (score f) MIN_SIMILARITY_SCORE"
        using scan_query_res_threshold[of query_res] s by simp
      then show ?thesis
        using \<open>truth_value query_vector = Inr b\<close> True q Inr s
        by (cases raised) (simp_all add: retrieve_true)
    qed
  qed
qed

section \<open>The stages put together\<close>

lemma safe_generate_content_spec:
  "\<exists>t ev w'. safe_generate_content sv prompt n w = (Inr t, ev, w')
     \<and> t = (case List.map_filter generated_text (successive_calls (generate_content sv prompt) n w) of
              [] \<Rightarrow> generate_fallback | t # ts \<Rightarrow> t)
     \<and> length (filter is_generate_call ev) \<le> n
     \<and> set ev \<subseteq> {GenerateCall prompt, Sleep 1} \<union> range StWarning"
  unfolding safe_generate_content_def by (rule generate_loop_spec)

lemma safe_embed_content_spec:
  "\<exists>v ev w'. safe_embed_content sv q n w = (Inr v, ev, w')
     \<and> v = (case List.map_filter embedded_value (successive_calls (embed_content sv q) n w) of
              [] \<Rightarrow> PyNone | v # vs \<Rightarrow> v)
     \<and> length (filter is_embed_call ev) \<le> n
     \<and> set ev \<subseteq> {EmbedCall q, Sleep 1} \<union> range StWarning
     \<and> (0 < n \<longrightarrow> (\<exists>rest. ev = EmbedCall q # rest))"
  unfolding safe_embed_content_def by (rule embed_loop_spec)

lemma synthesize_empty:
  "synthesize sv [] user_input w = (Inr no_fragments_context, [], w)"
  by (simp add: synthesize_def py_return_def)

lemma synthesize_spec:
  "\<exists>c ev w'. synthesize sv retrieved user_input w = (Inr c, ev, w')
     \<and> (\<forall>e\<in>set ev. \<not> is_embed_call e \<and> \<not> is_index_query e)"
proof (cases "retrieved = []")
  case True
  then show ?thesis by (simp add: synthesize_empty)
next
  case False
  from safe_generate_content_spec[of sv "synth_prompt (fragments_ctx retrieved) user_input"
      default_max_retries w]
  obtain t ev w' where g:
    "safe_generate_content sv (synth_prompt (fragments_ctx retrieved) user_input)
       default_max_retries w = (Inr t, ev, w')"
    "set ev \<subseteq> {GenerateCall (synth_prompt (fragments_ctx retrieved) user_input), Sleep 1}
               \<union> range StWarning"
    by blast
  have "synthesize sv retrieved user_input w
          = (Inr t, ev @ [Print [''Los fragmentos sintetizados son: '', t]], w')"
    using False g(1) by (simp add: synthesize_def py_bind_def print_def emit_def py_return_def)
  moreover have "\<forall>e\<in>set ev. \<not> is_embed_call e \<and> \<not> is_index_query e"
    using g(2) by auto
  ultimately show ?thesis by simp
qed

lemma answer_apology_not_empty: "answer_apology \<noteq> []"
  by (simp add: answer_apology_def)

lemma error_answer_not_empty: "error_answer e \<noteq> []"
  by (simp add: error_answer_def)

lemma generate_answer_spec:
  "\<exists>a ev w'. generate_answer sv conversation c user_input w = (Inr a, ev, w')
     \<and> a \<noteq> [] \<and> (\<forall>e\<in>set ev. \<not> is_embed_call e \<and> \<not> is_index_query e)"
proof -
  from safe_generate_content_spec[of sv
      "final_prompt (format_history (butlast conversation)) c user_input" default_max_retries w]
  obtain t ev w' where g:
    "safe_generate_content sv (final_prompt (format_history (butlast conversation)) c user_input)
       default_max_retries w = (Inr t, ev, w')"
    "set ev \<subseteq> {GenerateCall (final_prompt (format_history (butlast conversation)) c user_input),
                Sleep 1} \<union> range StWarning"
    by blast
  have "generate_answer sv conversation c user_input w
          = (Inr (if t = [] then answer_apology else t), ev, w')"
    using g(1) by (simp add: generate_answer_def py_bind_def py_return_def)
  moreover have "\<forall>e\<in>set ev. \<not> is_embed_call e \<and> \<not> is_index_query e"
    using g(2) by auto
  ultimately show ?thesis using answer_apology_not_empty by auto
qed

lemma pipeline_eq:
  assumes "safe_generate_content sv (expand_prompt user_input) default_max_retries w
             = (Inr expanded_query, ev1, w1)"
    and "safe_embed_content sv expanded_query default_max_retries w1 = (Inr query_vector, ev2, w2)"
  shows "pipeline sv user_input conversation w =
     (case retrieve sv query_vector w2 of
        (Inl e, ev3, w3) \<Rightarrow>
          (Inl e, ev1 @ Print [''La consulta expandida es: '', expanded_query] # ev2 @ ev3, w3)
      | (Inr retrieved, ev3, w3) \<Rightarrow>
          (case synthesize sv retrieved user_input w3 of
             (Inl e, ev4, w4) \<Rightarrow>
               (Inl e, ev1 @ Print [''La consulta expandida es: '', expanded_query] # ev2 @ ev3 @ ev4,
                w4)
           | (Inr synthesized_context, ev4, w4) \<Rightarrow>
               (case generate_answer sv conversation synthesized_context user_input w4 of
                  (r, ev5, w5) \<Rightarrow>
                    (map_sum id (\<lambda>answer. (answer, retrieved)) r,
                     ev1 @ Print [''La consulta expandida es: '', expanded_query] # ev2 @ ev3 @ ev4
                       @ ev5, w5))))"
  using assms
  by (simp add: pipeline_def py_bind_def print_def emit_def py_return_def
      split: prod.splits sum.splits)

lemma pipeline_cases:
  obtains (completes) q ev1 w1 qv ev2 w2 fs ev3 w3 c ev4 w4 a ev5 w5 where
      "safe_generate_content sv (expand_prompt user_input) default_max_retries w = (Inr q, ev1, w1)"
      "safe_embed_content sv q default_max_retries w1 = (Inr qv, ev2, w2)"
      "retrieve sv qv w2 = (Inr fs, ev3, w3)"
      "synthesize sv fs user_input w3 = (Inr c, ev4, w4)"
      "generate_answer sv conversation c user_input w4 = (Inr a, ev5, w5)"
      "pipeline sv user_input conversation w =
         (Inr (a, fs), ev1 @ Print [''La consulta expandida es: '', q] # ev2 @ ev3 @ ev4 @ ev5, w5)"
  | (raises) q ev1 w1 qv ev2 w2 e ev3 w3 where
      "safe_generate_content sv (expand_prompt user_input) default_max_retries w = (Inr q, ev1, w1)"
      "safe_embed_content sv q default_max_retries w1 = (Inr qv, ev2, w2)"
      "retrieve sv qv w2 = (Inl e, ev3, w3)"
      "pipeline sv user_input conversation w =
         (Inl e, ev1 @ Print [''La consulta expandida es: '', q] # ev2 @ ev3, w3)"
proof -
  from safe_generate_content_spec[of sv "expand_prompt user_input" default_max_retries w]
  obtain q ev1 w1 where g:
    "safe_generate_content sv (expand_prompt user_input) default_max_retries w = (Inr q, ev1, w1)"
    by blast
  from safe_embed_content_spec[of sv q default_max_retries w1]
  obtain qv ev2 w2 where e:
    "safe_embed_content sv q default_max_retries w1 = (Inr qv, ev2, w2)"
    by blast
  obtain r ev3 w3 where rt: "retrieve sv qv w2 = (r, ev3, w3)"
    by (cases "retrieve sv qv w2") auto
  show thesis
  proof (cases r)
    case (Inl x)
    show thesis
      by (rule raises[OF g e rt[unfolded Inl]]) (simp add: pipeline_eq[OF g e] rt Inl)
  next
    case (Inr fs)
    from synthesize_spec[of sv fs user_input w3]
    obtain c ev4 w4 where s: "synthesize sv fs user_input w3 = (Inr c, ev4, w4)" by blast
    from generate_answer_spec[of sv conversation c user_input w4]
    obtain a ev5 w5 where a: "generate_answer sv conversation c user_input w4 = (Inr a, ev5, w5)"
      by blast
    show thesis
      by (rule completes[OF g e rt[unfolded Inr] s a]) (simp add: pipeline_eq[OF g e] rt Inr s a)
  qed
qed

lemma respond_spec:
  "\<exists>a fs ev w'. respond sv user_input conversation w = (Inr (a, fs), ev, w')
     \<and> a \<noteq> [] \<and> (\<forall>f\<in>set fs. float_ge (score f) MIN_SIMILARITY_SCORE)"
proof (cases rule: pipeline_cases[of sv user_input w conversation])
  case (completes q ev1 w1 qv ev2 w2 fs ev3 w3 c ev4 w4 a ev5 w5)
  have "a \<noteq> []"
    using generate_answer_spec[of sv conversation c user_input w4] completes(5) by auto
  moreover have "\<forall>f\<in>set fs. float_ge (score f) MIN_SIMILARITY_SCORE"
    using retrieve_spec[of sv qv w2] completes(3) by auto
  ultimately show ?thesis
    using completes(6) by (simp add: respond_def py_try_def)
next
  case (raises q ev1 w1 qv ev2 w2 e ev3 w3)
  then show ?thesis
    by (simp add: respond_def py_try_def py_return_def error_answer_not_empty)
qed

lemma script_spec:
  assumes "user_input \<noteq> []"
  shows "\<exists>a fs ev w'. script sv (Some user_input) conversation w =
           (Inr (conversation @
                 [\<lparr>role = ''Usuario'', content = user_input, fragments = None\<rparr>,
                  \<lparr>role = ''Asistente'', content = a, fragments = Some fs\<rparr>]), ev, w')
     \<and> a \<noteq> [] \<and> (\<forall>f\<in>set fs. float_ge (score f) MIN_SIMILARITY_SCORE)"
proof -
  let ?c1 = "conversation @ [\<lparr>role = ''Usuario'', content = user_input, fragments = None\<rparr>]"
  from respond_spec[of sv user_input ?c1 w] obtain a fs ev w' where r:
    "respond sv user_input ?c1 w = (Inr (a, fs), ev, w')" "a \<noteq> []"
    "\<forall>f\<in>set fs. float_ge (score f) MIN_SIMILARITY_SCORE"
    by blast
  have "script sv (Some user_input) conversation w =
          (Inr (?c1 @ [\<lparr>role = ''Asistente'', content = a, fragments = Some fs\<rparr>]), ev, w')"
    using assms r(1) by (simp add: script_def py_bind_def py_return_def)
  then show ?thesis using r(2,3) by auto
qed

lemma script_idle:
  "\<not> submitted chat_input \<Longrightarrow> script sv chat_input conversation w = (Inr conversation, [], w)"
  by (cases chat_input) (simp_all add: script_def py_return_def)

section \<open>Sessions\<close>

lemma session_spec:
  "\<exists>new ev w'. session sv inputs conversation w = (Inr (conversation @ new), ev, w')
     \<and> length new = 2 * length (filter submitted inputs)
     \<and> alternating new
     \<and> (\<forall>t\<in>set new. \<forall>fs. fragments t = Some fs \<longrightarrow>
           (\<forall>f\<in>set fs. float_ge (score f) MIN_SIMILARITY_SCORE))"
proof (induction inputs arbitrary: conversation w)
  case Nil
  show ?case by (simp add: py_return_def)
next
  case (Cons chat_input rest)
  show ?case
  proof (cases "submitted chat_input")
    case False
    from Cons[of conversation w] obtain new ev w' where ih:
      "session sv rest conversation w = (Inr (conversation @ new), ev, w')"
      "length new = 2 * length (filter submitted rest)" "alternating new"
      "\<forall>t\<in>set new. \<forall>fs. fragments t = Some fs \<longrightarrow>
           (\<forall>f\<in>set fs. float_ge (score f) MIN_SIMILARITY_SCORE)"
      by blast
    have "session sv (chat_input # rest) conversation w = (Inr (conversation @ new), ev, w')"
      using script_idle[OF False, of sv conversation w] ih(1) by (simp add: py_bind_def)
    then show ?thesis using False ih(2,3,4) by auto
  next
    case True
    then obtain user_input where u: "chat_input = Some user_input" "user_input \<noteq> []"
      by (cases chat_input) auto
    let ?u = "\<lparr>role = ''Usuario'', content = user_input, fragments = None\<rparr>"
    from script_spec[OF u(2), of sv conversation w] obtain a fs ev1 w1 where s:
      "script sv (Some user_input) conversation w =
         (Inr (conversation @ [?u, \<lparr>role = ''Asistente'', content = a, fragments = Some fs\<rparr>]),
          ev1, w1)"
      "\<forall>f\<in>set fs. float_ge (score f) MIN_SIMILARITY_SCORE"
      by blast
    let ?a = "\<lparr>role = ''Asistente'', content = a, fragments = Some fs\<rparr>"
    from Cons[of "conversation @ [?u, ?a]" w1] obtain new ev w' where ih:
      "session sv rest (conversation @ [?u, ?a]) w1 = (Inr ((conversation @ [?u, ?a]) @ new), ev, w')"
      "length new = 2 * length (filter submitted rest)" "alternating new"
      "\<forall>t\<in>set new. \<forall>fs. fragments t = Some fs \<longrightarrow>
           (\<forall>f\<in>set fs. float_ge (score f) MIN_SIMILARITY_SCORE)"
      by blast
    have "session sv (chat_input # rest) conversation w
            = (Inr (conversation @ (?u # ?a # new)), ev1 @ ev, w')"
      using s(1) ih(1) u(1) by (simp add: py_bind_def)
    moreover have "length (?u # ?a # new) = 2 * length (filter submitted (chat_input # rest))"
      using True ih(2) by simp
    moreover have "alternating (?u # ?a # new)"
      using ih(3) by simp
    moreover have "\<forall>t\<in>set (?u # ?a # new). \<forall>fs. fragments t = Some fs \<longrightarrow>
           (\<forall>f\<in>set fs. float_ge (score f) MIN_SIMILARITY_SCORE)"
      using ih(4) s(2) by auto
    ultimately show ?thesis by blast
  qed
qed

lemma session_append:
  "session sv (inputs1 @ inputs2) conversation =
     py_bind (session sv inputs1 conversation) (session sv inputs2)"
proof (induction inputs1 arbitrary: conversation)
  case Nil
  show ?case by (rule ext) (simp add: py_bind_def py_return_def split: prod.splits sum.splits)
next
  case (Cons i inputs1)
  show ?case
    by (rule ext) (simp add: Cons py_bind_def split: prod.splits sum.splits)
qed

lemma map_filter_all_None:
  "\<forall>x\<in>set xs. f x = None \<Longrightarrow> List.map_filter f xs = []"
  by (induction xs) (simp_all add: List.map_filter_simps)

section \<open>Outcomes\<close>

lemma outcome_eq:
  "result_of out = r \<Longrightarrow> world_of out = w' \<Longrightarrow> out = (r, events_of out, w')"
  by (cases out) (simp add: result_of_def events_of_def world_of_def)

lemma outcome_simps [simp]:
  "result_of (r, ev, w') = r" "events_of (r, ev, w') = ev" "world_of (r, ev, w') = w'"
  by (simp_all add: result_of_def events_of_def world_of_def)


lemma turn_without_vector:
  assumes g: "safe_generate_content sv (expand_prompt user_input) default_max_retries w
                = (Inr q, ev1, w1)"
    and e: "safe_embed_content sv q default_max_retries w1 = (Inr qv, ev2, w2)"
    and f: "truth_value qv = Inr False"
  shows "\<exists>a ev5 w5.
      generate_answer sv conversation no_fragments_context user_input w2 = (Inr a, ev5, w5)
      \<and> a \<noteq> []
      \<and> pipeline sv user_input conversation w =
          (Inr (a, []), ev1 @ Print [''La consulta expandida es: '', q] # ev2 @ ev5, w5)
      \<and> filter is_index_query (ev1 @ Print [''La consulta expandida es: '', q] # ev2 @ ev5) = []"
proof -
  from generate_answer_spec[of sv conversation no_fragments_context user_input w2]
  obtain a ev5 w5 where a:
    "generate_answer sv conversation no_fragments_context user_input w2 = (Inr a, ev5, w5)"
    "a \<noteq> []" "\<forall>e\<in>set ev5. \<not> is_embed_call e \<and> \<not> is_index_query e"
    by blast
  have p: "pipeline sv user_input conversation w =
          (Inr (a, []), ev1 @ Print [''La consulta expandida es: '', q] # ev2 @ ev5, w5)"
    by (simp add: pipeline_eq[OF g e] retrieve_false[OF f] synthesize_empty a(1))
  have "set ev1 \<subseteq> {GenerateCall (expand_prompt user_input), Sleep 1} \<union> range StWarning"
    using safe_generate_content_spec[of sv "expand_prompt user_input" default_max_retries w] g
    by auto
  then have n1: "filter is_index_query ev1 = []"
    by (auto simp: filter_empty_conv)
  have "set ev2 \<subseteq> {EmbedCall q, Sleep 1} \<union> range StWarning"
    using safe_embed_content_spec[of sv q default_max_retries w1] e by auto
  then have n2: "filter is_index_query ev2 = []"
    by (auto simp: filter_empty_conv)
  have n5: "filter is_index_query ev5 = []"
    using a(3) by (auto simp: filter_empty_conv)
  show ?thesis using a(1,2) p n1 n2 n5 by simp
qed

lemma script_of_pipeline:
  assumes "user_input \<noteq> []"
    and "pipeline sv user_input
           (conversation @ [\<lparr>role = ''Usuario'', content = user_input, fragments = None\<rparr>]) w
         = (Inr (a, fs), ev, w')"
  shows "script sv (Some user_input) conversation w =
           (Inr (conversation @
                 [\<lparr>role = ''Usuario'', content = user_input, fragments = None\<rparr>,
                  \<lparr>role = ''Asistente'', content = a, fragments = Some fs\<rparr>]), ev, w')"
  using assms by (simp add: script_def respond_def py_try_def py_bind_def py_return_def)

section \<open>Which calls a stage makes\<close>

lemma retrieve_events:
  "set (events_of (retrieve sv query_vector w))
     \<subseteq> {IndexQuery query_vector TOP_K True} \<union> range StError"
proof (cases "truth_value query_vector")
  case (Inl e)
  then show ?thesis by (simp add: retrieve_raise)
next
  case (Inr b)
  show ?thesis
  proof (cases b)
    case False
    then show ?thesis using Inr by (simp add: retrieve_false)
  next
    case True
    then show ?thesis
      using Inr by (auto simp: retrieve_true split: prod.splits sum.splits option.splits)
  qed
qed

lemma generate_answer_events:
  "set (events_of (generate_answer sv conversation c user_input w))
     \<subseteq> {GenerateCall (final_prompt (format_history (butlast conversation)) c user_input), Sleep 1}
        \<union> range StWarning"
proof -
  from safe_generate_content_spec[of sv
      "final_prompt (format_history (butlast conversation)) c user_input" default_max_retries w]
  obtain t ev w' where g:
    "safe_generate_content sv (final_prompt (format_history (butlast conversation)) c user_input)
       default_max_retries w = (Inr t, ev, w')"
    "set ev \<subseteq> {GenerateCall (final_prompt (format_history (butlast conversation)) c user_input),
                Sleep 1} \<union> range StWarning"
    by blast
  have "generate_answer sv conversation c user_input w
          = (Inr (if t = [] then answer_apology else t), ev, w')"
    using g(1) by (simp add: generate_answer_def py_bind_def py_return_def)
  then show ?thesis using g(2) by simp
qed

lemma safe_generate_content_events:
  "set (events_of (safe_generate_content sv prompt n w))
     \<subseteq> {GenerateCall prompt, Sleep 1} \<union> range StWarning"
  using safe_generate_content_spec[of sv prompt n w] by auto

lemma safe_embed_content_events:
  "set (events_of (safe_embed_content sv q n w)) \<subseteq> {EmbedCall q, Sleep 1} \<union> range StWarning"
  using safe_embed_content_spec[of sv q n w] by auto

lemma no_embed_call:
  "set ev \<subseteq> {GenerateCall p, Sleep 1} \<union> range StWarning \<Longrightarrow> filter is_embed_call ev = []"
  "set ev \<subseteq> {IndexQuery v k m} \<union> range StError \<Longrightarrow> filter is_embed_call ev = []"
  "set ev \<subseteq> {GenerateCall p, Sleep 1} \<union> range StWarning \<union> range Print
     \<Longrightarrow> filter is_embed_call ev = []"
  by (auto simp: filter_empty_conv)

lemma no_generate_call:
  "set ev \<subseteq> {EmbedCall q, Sleep 1} \<union> range StWarning \<Longrightarrow> filter is_generate_call ev = []"
  "set ev \<subseteq> {IndexQuery v k m} \<union> range StError \<Longrightarrow> filter is_generate_call ev = []"
  by (auto simp: filter_empty_conv)

lemma only_generate_call:
  "set ev \<subseteq> {GenerateCall p, Sleep 1} \<union> range StWarning
     \<Longrightarrow> set (filter is_generate_call ev) \<subseteq> {GenerateCall p}"
  by auto

lemma only_embed_call:
  "set ev \<subseteq> {EmbedCall q, Sleep 1} \<union> range StWarning
     \<Longrightarrow> set (filter is_embed_call ev) \<subseteq> {EmbedCall q}"
  by auto

section \<open>Properties of the wrappers when a call may raise anything\<close>

lemma base_generate_attempt_eq:
  "base_generate_attempt sv prompt attempt w =
     (case base_generate_content sv prompt w of (r, w') \<Rightarrow>
        if returns_or_raises_Exception r then
          (case base_generated_text r of
             Some t \<Rightarrow> (Inr (Some t), [GenerateCall prompt], w')
           | None \<Rightarrow>
              (Inr None,
               GenerateCall prompt #
                 (case r of
                    Inl b \<Rightarrow>
                      (case b of
                         Exc e \<Rightarrow> [StWarning (''Error en intento '' @ str_nat (attempt + 1)
                                                @ '': '' @ str_exn e)]
                       | _ \<Rightarrow> [])
                  | Inr response \<Rightarrow>
                      (case response_text response of
                         Inl e \<Rightarrow> [StWarning (''Error en intento '' @ str_nat (attempt + 1)
                                                 @ '': '' @ str_exn e)]
                       | Inr t \<Rightarrow> [])) @ [Sleep 1], w'))
        else (case r of Inl b \<Rightarrow> (Inl b, [GenerateCall prompt], w')
                      | Inr response \<Rightarrow> (Inr None, [], w')))"
  by (simp add: base_generate_attempt_def except_Exception_def base_bind_def base_call_generate_def
      base_of_def py_lift_def base_return_def time_sleep_def st_warning_def emit_def
      base_generated_text_def
      split: prod.splits sum.splits option.splits base_exn.splits)

lemma base_embed_attempt_eq:
  "base_embed_attempt sv q attempt w =
     (case base_embed_content sv q w of (r, w') \<Rightarrow>
        if returns_or_raises_Exception r then
          (case base_embedded_value r of
             Some v \<Rightarrow> (Inr (Some v), [EmbedCall q], w')
           | None \<Rightarrow>
              (Inr None,
               EmbedCall q #
                 (case r of
                    Inl b \<Rightarrow>
                      (case b of
                         Exc e \<Rightarrow> [StWarning (''Error al generar embedding (intento ''
                                                @ str_nat (attempt + 1) @ ''): '' @ str_exn e)]
                       | _ \<Rightarrow> [])
                  | Inr emb \<Rightarrow>
                      (case embed_value emb of
                         Inl e \<Rightarrow> [StWarning (''Error al generar embedding (intento ''
                                                 @ str_nat (attempt + 1) @ ''): '' @ str_exn e)]
                       | Inr t \<Rightarrow> [])) @ [Sleep 1], w'))
        else (case r of Inl b \<Rightarrow> (Inl b, [EmbedCall q], w')
                      | Inr emb \<Rightarrow> (Inr None, [], w')))"
  by (simp add: base_embed_attempt_def except_Exception_def base_bind_def base_call_embed_def
      base_of_def py_lift_def base_return_def time_sleep_def st_warning_def emit_def
      base_embedded_value_def
      split: prod.splits sum.splits option.splits base_exn.splits)

lemma base_generate_loop_spec:
  assumes "\<forall>r\<in>set (successive_calls (base_generate_content sv prompt) k w).
             returns_or_raises_Exception r"
  shows "\<exists>t. fst (base_generate_loop sv prompt attempt k w) = Inr t
     \<and> t = (case List.map_filter base_generated_text
                   (successive_calls (base_generate_content sv prompt) k w) of
              [] \<Rightarrow> generate_fallback | t # ts \<Rightarrow> t)"
  using assms
proof (induction k arbitrary: attempt w)
  case 0
  show ?case by (simp add: base_return_def)
next
  case (Suc k)
  obtain r w1 where c: "base_generate_content sv prompt w = (r, w1)"
    by (cases "base_generate_content sv prompt w")
  from Suc.prems c have ok: "returns_or_raises_Exception r"
    and rest: "\<forall>r\<in>set (successive_calls (base_generate_content sv prompt) k w1).
                 returns_or_raises_Exception r"
    by simp_all
  show ?case
  proof (cases "base_generated_text r")
    case (Some t)
    then show ?thesis
      using c ok
      by (simp add: base_bind_def base_generate_attempt_eq base_return_def List.map_filter_simps)
  next
    case None
    from Suc.IH[OF rest, of "Suc attempt"] obtain t where ih:
      "fst (base_generate_loop sv prompt (Suc attempt) k w1) = Inr t"
      "t = (case List.map_filter base_generated_text
                   (successive_calls (base_generate_content sv prompt) k w1) of
              [] \<Rightarrow> generate_fallback | t # ts \<Rightarrow> t)"
      by blast
    obtain ev w' where l: "base_generate_loop sv prompt (Suc attempt) k w1 = (Inr t, ev, w')"
      using ih(1) by (cases "base_generate_loop sv prompt (Suc attempt) k w1") simp
    show ?thesis
      using c ok None l ih(2)
      by (simp add: base_bind_def base_generate_attempt_eq List.map_filter_simps)
  qed
qed

lemma base_embed_loop_spec:
  assumes "\<forall>r\<in>set (successive_calls (base_embed_content sv q) k w).
             returns_or_raises_Exception r"
  shows "\<exists>v. fst (base_embed_loop sv q attempt k w) = Inr v
     \<and> v = (case List.map_filter base_embedded_value
                   (successive_calls (base_embed_content sv q) k w) of
              [] \<Rightarrow> PyNone | v # vs \<Rightarrow> v)"
  using assms
proof (induction k arbitrary: attempt w)
  case 0
  show ?case by (simp add: base_return_def)
next
  case (Suc k)
  obtain r w1 where c: "base_embed_content sv q w = (r, w1)"
    by (cases "base_embed_content sv q w")
  from Suc.prems c have ok: "returns_or_raises_Exception r"
    and rest: "\<forall>r\<in>set (successive_calls (base_embed_content sv q) k w1).
                 returns_or_raises_Exception r"
    by simp_all
  show ?case
  proof (cases "base_embedded_value r")
    case (Some v)
    then show ?thesis
      using c ok
      by (simp add: base_bind_def base_embed_attempt_eq base_return_def List.map_filter_simps)
  next
    case None
    from Suc.IH[OF rest, of "Suc attempt"] obtain v where ih:
      "fst (base_embed_loop sv q (Suc attempt) k w1) = Inr v"
      "v = (case List.map_filter base_embedded_value
                   (successive_calls (base_embed_content sv q) k w1) of
              [] \<Rightarrow> PyNone | v # vs \<Rightarrow> v)"
      by blast
    obtain ev w' where l: "base_embed_loop sv q (Suc attempt) k w1 = (Inr v, ev, w')"
      using ih(1) by (cases "base_embed_loop sv q (Suc attempt) k w1") simp
    show ?thesis
      using c ok None l ih(2)
      by (simp add: base_bind_def base_embed_attempt_eq List.map_filter_simps)
  qed
qed

text \<open>
  On services that raise instances of \<^verbatim>\<open>Exception\<close> only, the wrappers of this section
  are the wrappers of the pipeline.
\<close>

lemma base_of_bind:
  "base_of (py_bind m f) = base_bind (base_of m) (\<lambda>x. base_of (f x))"
  by (rule ext) (simp add: base_of_def py_bind_def base_bind_def split: prod.splits sum.splits)

lemma base_of_return: "base_of (py_return x) = base_return x"
  by (rule ext) (simp add: base_of_def py_return_def base_return_def)

lemma base_generate_attempt_as_base:
  "base_generate_attempt (as_base sv) prompt attempt = base_of (generate_attempt sv prompt attempt)"
  by (rule ext)
     (auto simp: base_generate_attempt_eq generate_attempt_eq as_base_def base_of_def
        base_generated_text_def generated_text_def
        split: prod.splits sum.splits option.splits)

lemma base_embed_attempt_as_base:
  "base_embed_attempt (as_base sv) q attempt = base_of (embed_attempt sv q attempt)"
  by (rule ext)
     (auto simp: base_embed_attempt_eq embed_attempt_eq as_base_def base_of_def
        base_embedded_value_def embedded_value_def
        split: prod.splits sum.splits option.splits)

lemma base_generate_loop_as_base:
  "base_generate_loop (as_base sv) prompt attempt k = base_of (generate_loop sv prompt attempt k)"
proof (induction k arbitrary: attempt)
  case 0
  show ?case by (simp add: base_of_return)
next
  case (Suc k)
  have "(\<lambda>r. case r of Some t \<Rightarrow> base_return t
                     | None \<Rightarrow> base_generate_loop (as_base sv) prompt (Suc attempt) k)
        = (\<lambda>r. base_of (case r of Some t \<Rightarrow> py_return t
                                 | None \<Rightarrow> generate_loop sv prompt (Suc attempt) k))"
    by (rule ext) (simp add: Suc base_of_return split: option.splits)
  then show ?case
    by (simp add: base_generate_attempt_as_base base_of_bind)
qed

lemma base_embed_loop_as_base:
  "base_embed_loop (as_base sv) q attempt k = base_of (embed_loop sv q attempt k)"
proof (induction k arbitrary: attempt)
  case 0
  show ?case by (simp add: base_of_return)
next
  case (Suc k)
  have "(\<lambda>r. case r of Some v \<Rightarrow> base_return v
                     | None \<Rightarrow> base_embed_loop (as_base sv) q (Suc attempt) k)
        = (\<lambda>r. base_of (case r of Some v \<Rightarrow> py_return v
                                 | None \<Rightarrow> embed_loop sv q (Suc attempt) k))"
    by (rule ext) (simp add: Suc base_of_return split: option.splits)
  then show ?case
    by (simp add: base_embed_attempt_as_base base_of_bind)
qed

lemma wrappers_as_base:
  "base_safe_generate_content (as_base sv) prompt n = base_of (safe_generate_content sv prompt n)"
  "base_safe_embed_content (as_base sv) q n = base_of (safe_embed_content sv q n)"
  by (simp_all add: base_safe_generate_content_def safe_generate_content_def
      base_safe_embed_content_def safe_embed_content_def
      base_generate_loop_as_base base_embed_loop_as_base)

section \<open>The threshold on similarity\<close>

text \<open>
  C1. Every assistant turn that a session appends to the conversation carries only
  fragments whose score is at least \<open>MIN_SIMILARITY_SCORE\<close>, whatever the services do;
  and when the pipeline raises, the handler of the turn records the error text with an
  empty list of fragments.
\<close>

theorem threshold_invariant:
  "(\<exists>conversation. result_of (session sv inputs [] w) = Inr conversation \<and>
      (\<forall>t\<in>set conversation. \<forall>fs. fragments t = Some fs \<longrightarrow>
         (\<forall>f\<in>set fs. float_ge (score f) MIN_SIMILARITY_SCORE))) \<and>
   (result_of (pipeline sv' user_input conversation' w0) = Inl e \<longrightarrow>
      result_of (respond sv' user_input conversation' w0) = Inr (error_answer e, []))"
proof
  from session_spec[of sv inputs "[]" w]
  show "\<exists>conversation. result_of (session sv inputs [] w) = Inr conversation \<and>
      (\<forall>t\<in>set conversation. \<forall>fs. fragments t = Some fs \<longrightarrow>
         (\<forall>f\<in>set fs. float_ge (score f) MIN_SIMILARITY_SCORE))"
    by auto
next
  show "result_of (pipeline sv' user_input conversation' w0) = Inl e \<longrightarrow>
      result_of (respond sv' user_input conversation' w0) = Inr (error_answer e, [])"
    by (cases "pipeline sv' user_input conversation' w0")
       (auto simp: respond_def py_try_def py_return_def)
qed

section \<open>Retries\<close>

text \<open>
  C2. \<open>safe_generate_content\<close> and \<open>safe_embed_content\<close> return a value and do not raise
  whenever each call of the run either returns, whatever the response, or raises an
  instance of \<^verbatim>\<open>Exception\<close>. When moreover none of the \<open>n\<close> calls gives a response out
  of which something can be read, the first returns the fixed fallback text and the second
  returns \<open>None\<close>. What the call of the first attempt raises that is no instance of
  \<^verbatim>\<open>Exception\<close> is not caught: the wrapper raises it to its caller.
\<close>

theorem wrappers_catch_exceptions:
  "((\<forall>r\<in>set (successive_calls (base_generate_content sv prompt) n w).
       returns_or_raises_Exception r) \<longrightarrow>
      (\<exists>t. fst (base_safe_generate_content sv prompt n w) = Inr t) \<and>
      ((\<forall>r\<in>set (successive_calls (base_generate_content sv prompt) n w).
          base_generated_text r = None) \<longrightarrow>
         fst (base_safe_generate_content sv prompt n w) = Inr generate_fallback)) \<and>
   ((\<forall>r\<in>set (successive_calls (base_embed_content sv q) n w).
       returns_or_raises_Exception r) \<longrightarrow>
      (\<exists>v. fst (base_safe_embed_content sv q n w) = Inr v) \<and>
      ((\<forall>r\<in>set (successive_calls (base_embed_content sv q) n w).
          base_embedded_value r = None) \<longrightarrow>
         fst (base_safe_embed_content sv q n w) = Inr PyNone)) \<and>
   (fst (base_generate_content sv prompt w) = Inl b \<and> \<not> is_Exception b \<longrightarrow>
      fst (base_safe_generate_content sv prompt (Suc k) w) = Inl b) \<and>
   (fst (base_embed_content sv q w) = Inl b' \<and> \<not> is_Exception b' \<longrightarrow>
      fst (base_safe_embed_content sv q (Suc k) w) = Inl b')"
proof (intro conjI impI)
  assume a: "fst (base_generate_content sv prompt w) = Inl b \<and> \<not> is_Exception b"
  then obtain w' where "base_generate_content sv prompt w = (Inl b, w')"
    by (cases "base_generate_content sv prompt w") simp
  moreover from a have "\<not> returns_or_raises_Exception (Inl b :: base_exn + response)"
    by (cases b) simp_all
  ultimately show "fst (base_safe_generate_content sv prompt (Suc k) w) = Inl b"
    by (simp add: base_safe_generate_content_def base_bind_def base_generate_attempt_eq)
next
  assume a: "fst (base_embed_content sv q w) = Inl b' \<and> \<not> is_Exception b'"
  then obtain w' where "base_embed_content sv q w = (Inl b', w')"
    by (cases "base_embed_content sv q w") simp
  moreover from a have "\<not> returns_or_raises_Exception (Inl b' :: base_exn + embed_response)"
    by (cases b') simp_all
  ultimately show "fst (base_safe_embed_content sv q (Suc k) w) = Inl b'"
    by (simp add: base_safe_embed_content_def base_bind_def base_embed_attempt_eq)
next
  assume ok: "\<forall>r\<in>set (successive_calls (base_generate_content sv prompt) n w).
                returns_or_raises_Exception r"
  from base_generate_loop_spec[OF ok, of 0] obtain t where g:
    "fst (base_safe_generate_content sv prompt n w) = Inr t"
    "t = (case List.map_filter base_generated_text
                   (successive_calls (base_generate_content sv prompt) n w) of
              [] \<Rightarrow> generate_fallback | t # ts \<Rightarrow> t)"
    unfolding base_safe_generate_content_def by blast
  show "\<exists>t. fst (base_safe_generate_content sv prompt n w) = Inr t"
    using g(1) by blast
  assume "\<forall>r\<in>set (successive_calls (base_generate_content sv prompt) n w).
            base_generated_text r = None"
  then show "fst (base_safe_generate_content sv prompt n w) = Inr generate_fallback"
    using g by (simp add: map_filter_all_None)
next
  assume ok: "\<forall>r\<in>set (successive_calls (base_embed_content sv q) n w).
                returns_or_raises_Exception r"
  from base_embed_loop_spec[OF ok, of 0] obtain v where e:
    "fst (base_safe_embed_content sv q n w) = Inr v"
    "v = (case List.map_filter base_embedded_value
                   (successive_calls (base_embed_content sv q) n w) of
              [] \<Rightarrow> PyNone | v # vs \<Rightarrow> v)"
    unfolding base_safe_embed_content_def by blast
  show "\<exists>v. fst (base_safe_embed_content sv q n w) = Inr v"
    using e(1) by blast
  assume "\<forall>r\<in>set (successive_calls (base_embed_content sv q) n w).
            base_embedded_value r = None"
  then show "fst (base_safe_embed_content sv q n w) = Inr PyNone"
    using e by (simp add: map_filter_all_None)
qed

text \<open>
  C4. One invocation of \<open>safe_generate_content\<close> with the retry count \<open>n\<close> calls the model
  at most \<open>n\<close> times, and one of \<open>safe_embed_content\<close> calls the embedding service at most
  \<open>n\<close> times.
\<close>

theorem retry_bound:
  "length (filter is_generate_call (events_of (safe_generate_content sv prompt n w))) \<le> n \<and>
   length (filter is_embed_call (events_of (safe_embed_content sv q n w))) \<le> n"
proof
  from safe_generate_content_spec[of sv prompt n w]
  show "length (filter is_generate_call (events_of (safe_generate_content sv prompt n w))) \<le> n"
    by auto
next
  from safe_embed_content_spec[of sv q n w]
  show "length (filter is_embed_call (events_of (safe_embed_content sv q n w))) \<le> n"
    by auto
qed

section \<open>The conversation\<close>

text \<open>
  C3. A session only appends to the conversation: after its inputs the conversation is
  the one it started from followed by two turns for each submitted input, a user turn
  and then an assistant turn. From the empty conversation that makes exactly \<open>2K\<close> turns
  after \<open>K\<close> submitted inputs, and they are still the first turns after any further
  inputs.
\<close>

theorem append_only_history:
  "(\<exists>new. result_of (session sv inputs conversation w) = Inr (conversation @ new) \<and>
      length new = 2 * length (filter submitted inputs) \<and> alternating new) \<and>
   (\<exists>turns later. result_of (session sv inputs [] w) = Inr turns \<and>
      length turns = 2 * length (filter submitted inputs) \<and> alternating turns \<and>
      result_of (session sv (inputs @ further) [] w) = Inr (turns @ later))"
proof
  from session_spec[of sv inputs conversation w]
  show "\<exists>new. result_of (session sv inputs conversation w) = Inr (conversation @ new) \<and>
      length new = 2 * length (filter submitted inputs) \<and> alternating new"
    by auto
next
  from session_spec[of sv inputs "[]" w] obtain turns ev w1 where s1:
    "session sv inputs [] w = (Inr turns, ev, w1)"
    "length turns = 2 * length (filter submitted inputs)" "alternating turns"
    by auto
  from session_spec[of sv further turns w1] obtain later ev' w2 where s2:
    "session sv further turns w1 = (Inr (turns @ later), ev', w2)"
    by auto
  have "session sv (inputs @ further) [] w = (Inr (turns @ later), ev @ ev', w2)"
    using s1(1) s2 by (simp add: session_append py_bind_def)
  then show "\<exists>turns later. result_of (session sv inputs [] w) = Inr turns \<and>
      length turns = 2 * length (filter submitted inputs) \<and> alternating turns \<and>
      result_of (session sv (inputs @ further) [] w) = Inr (turns @ later)"
    using s1 by auto
qed

section \<open>Turns without retrieval\<close>


text \<open>
  C10. An embedding that is the empty list is not \<open>None\<close>, and \<open>safe_embed_content\<close> returns
  it as it is; yet the guard \<^verbatim>\<open>if query_vector:\<close> is false for it, so that the retrieval
  stage returns no fragments without querying the index, and the turn is recorded with an
  empty list of fragments.
\<close>

theorem empty_vector_skips_retrieval:
  "PyList [] \<noteq> PyNone \<and>
   retrieve sv (PyList []) w = (Inr [], [], w) \<and>
   (fst (embed_content sv expanded_query w1) = Inr (EmbedDict (Some (PyList []))) \<longrightarrow>
      result_of (safe_embed_content sv expanded_query default_max_retries w1) = Inr (PyList [])) \<and>
   (result_of (safe_generate_content sv (expand_prompt user_input) default_max_retries w)
        = Inr expanded_query \<and>
    world_of (safe_generate_content sv (expand_prompt user_input) default_max_retries w) = w1 \<and>
    result_of (safe_embed_content sv expanded_query default_max_retries w1) = Inr (PyList []) \<and>
    user_input \<noteq> [] \<longrightarrow>
      (\<exists>answer.
         result_of (script sv (Some user_input) conversation w)
           = Inr (conversation @
                  [\<lparr>role = ''Usuario'', content = user_input, fragments = None\<rparr>,
                   \<lparr>role = ''Asistente'', content = answer, fragments = Some []\<rparr>]) \<and>
         filter is_index_query (events_of (script sv (Some user_input) conversation w)) = []))"
proof (intro conjI impI)
  show "PyList [] \<noteq> PyNone" by simp
next
  show "retrieve sv (PyList []) w = (Inr [], [], w)" by (simp add: retrieve_false)
next
  assume r: "fst (embed_content sv expanded_query w1) = Inr (EmbedDict (Some (PyList [])))"
  then obtain w2 where "embed_content sv expanded_query w1 = (Inr (EmbedDict (Some (PyList []))), w2)"
    by (cases "embed_content sv expanded_query w1") simp
  then show "result_of (safe_embed_content sv expanded_query default_max_retries w1)
               = Inr (PyList [])"
    by (simp add: safe_embed_content_def default_max_retries_def numeral_3_eq_3 py_bind_def
        py_return_def embed_attempt_eq embedded_value_def)
next
  assume a: "result_of (safe_generate_content sv (expand_prompt user_input) default_max_retries w)
        = Inr expanded_query \<and>
    world_of (safe_generate_content sv (expand_prompt user_input) default_max_retries w) = w1 \<and>
    result_of (safe_embed_content sv expanded_query default_max_retries w1) = Inr (PyList []) \<and>
    user_input \<noteq> []"
  let ?c1 = "conversation @ [\<lparr>role = ''Usuario'', content = user_input, fragments = None\<rparr>]"
  from a have g: "safe_generate_content sv (expand_prompt user_input) default_max_retries w
      = (Inr expanded_query,
         events_of (safe_generate_content sv (expand_prompt user_input) default_max_retries w), w1)"
    by (intro outcome_eq) simp_all
  from a have e: "safe_embed_content sv expanded_query default_max_retries w1
      = (Inr (PyList []), events_of (safe_embed_content sv expanded_query default_max_retries w1),
         world_of (safe_embed_content sv expanded_query default_max_retries w1))"
    by (intro outcome_eq) simp_all
  have f: "truth_value (PyList []) = Inr False" by simp
  from turn_without_vector[OF g e f, of ?c1] obtain answer ev5 w5 where t:
    "pipeline sv user_input ?c1 w =
       (Inr (answer, []),
        events_of (safe_generate_content sv (expand_prompt user_input) default_max_retries w)
          @ Print [''La consulta expandida es: '', expanded_query]
          # events_of (safe_embed_content sv expanded_query default_max_retries w1) @ ev5, w5)"
    "filter is_index_query
       (events_of (safe_generate_content sv (expand_prompt user_input) default_max_retries w)
          @ Print [''La consulta expandida es: '', expanded_query]
          # events_of (safe_embed_content sv expanded_query default_max_retries w1) @ ev5) = []"
    by auto
  from a have "user_input \<noteq> []" by simp
  from script_of_pipeline[OF this t(1)] t(2)
  show "\<exists>answer.
         result_of (script sv (Some user_input) conversation w)
           = Inr (conversation @
                  [\<lparr>role = ''Usuario'', content = user_input, fragments = None\<rparr>,
                   \<lparr>role = ''Asistente'', content = answer, fragments = Some []\<rparr>]) \<and>
         filter is_index_query (events_of (script sv (Some user_input) conversation w)) = []"
    by (intro exI[of _ answer]) simp
qed

section \<open>Filtering the matches\<close>

text \<open>
  C6. The loop over the matches keeps the order of the index. On matches that are read
  without raising, the scores of the fragments are the scores of the matches that reach
  the threshold, in the order of the matches, and the retrieval stage returns exactly what
  the loop retained. Matches with the scores 0.91, 0.73, 0.40 and 0.60 leave the first,
  the second and the fourth, in that order.
\<close>

theorem order_preserved:
  "((\<forall>m\<in>set ms. well_formed m) \<longrightarrow>
      fst (for_matches ms []) = None \<and>
      map score (snd (for_matches ms [])) =
        filter (\<lambda>x. float_ge x MIN_SIMILARITY_SCORE) (map match_score_or_default ms)) \<and>
   (truth_value query_vector = Inr True \<and>
    fst (index_query sv query_vector TOP_K True w) = Inr (QueryRes (Some (Matches ms))) \<longrightarrow>
      result_of (retrieve sv query_vector w) = Inr (snd (for_matches ms []))) \<and>
   for_matches
     [Match (Some (Score (Finite 0.91))) (Some (Metadata meta1)),
      Match (Some (Score (Finite 0.73))) (Some (Metadata meta2)),
      Match (Some (Score (Finite 0.40))) (Some (Metadata meta3)),
      Match (Some (Score (Finite 0.60))) (Some (Metadata meta4))] []
   = (None,
      [\<lparr>texto = dict_get meta1 ''texto'' [], documento = dict_get meta1 ''documento'' [],
        score = Finite 0.91\<rparr>,
       \<lparr>texto = dict_get meta2 ''texto'' [], documento = dict_get meta2 ''documento'' [],
        score = Finite 0.73\<rparr>,
       \<lparr>texto = dict_get meta4 ''texto'' [], documento = dict_get meta4 ''documento'' [],
        score = Finite 0.60\<rparr>])"
proof (intro conjI impI)
  assume "\<forall>m\<in>set ms. well_formed m"
  from for_matches_scores[OF this, of "[]"]
  show "fst (for_matches ms []) = None"
    and "map score (snd (for_matches ms [])) =
        filter (\<lambda>x. float_ge x MIN_SIMILARITY_SCORE) (map match_score_or_default ms)"
    by simp_all
next
  assume a: "truth_value query_vector = Inr True \<and>
    fst (index_query sv query_vector TOP_K True w) = Inr (QueryRes (Some (Matches ms)))"
  then obtain w' where
    "index_query sv query_vector TOP_K True w = (Inr (QueryRes (Some (Matches ms))), w')"
    by (cases "index_query sv query_vector TOP_K True w") simp
  then show "result_of (retrieve sv query_vector w) = Inr (snd (for_matches ms []))"
    using a by (cases "for_matches ms []")
      (auto simp: retrieve_true scan_query_res_def split: option.splits)
next
  show "for_matches
     [Match (Some (Score (Finite 0.91))) (Some (Metadata meta1)),
      Match (Some (Score (Finite 0.73))) (Some (Metadata meta2)),
      Match (Some (Score (Finite 0.40))) (Some (Metadata meta3)),
      Match (Some (Score (Finite 0.60))) (Some (Metadata meta4))] []
   = (None,
      [\<lparr>texto = dict_get meta1 ''texto'' [], documento = dict_get meta1 ''documento'' [],
        score = Finite 0.91\<rparr>,
       \<lparr>texto = dict_get meta2 ''texto'' [], documento = dict_get meta2 ''documento'' [],
        score = Finite 0.73\<rparr>,
       \<lparr>texto = dict_get meta4 ''texto'' [], documento = dict_get meta4 ''documento'' [],
        score = Finite 0.60\<rparr>])"
    by (simp add: MIN_SIMILARITY_SCORE_def)
qed


section \<open>Turns with nothing retrieved, turns with a failed expansion\<close>

text \<open>
  C7. With no fragment retained, the synthesis stage returns the fixed text that no
  relevant fragments were found and calls nothing. In a turn whose retrieval stage returns
  no fragment, the pipeline goes from the retrieval straight to the final answer, built on
  that fixed text; the only calls of the model in the turn are the one for the expansion
  and the one for the final answer.
\<close>

theorem empty_retrieval_skips_synthesis:
  "synthesize sv [] user_input w = (Inr no_fragments_context, [], w) \<and>
   (result_of (safe_generate_content sv (expand_prompt user_input) default_max_retries w)
        = Inr expanded_query \<and>
    world_of (safe_generate_content sv (expand_prompt user_input) default_max_retries w) = w1 \<and>
    result_of (safe_embed_content sv expanded_query default_max_retries w1) = Inr query_vector \<and>
    world_of (safe_embed_content sv expanded_query default_max_retries w1) = w2 \<and>
    result_of (retrieve sv query_vector w2) = Inr [] \<and>
    world_of (retrieve sv query_vector w2) = w3 \<longrightarrow>
      (\<exists>answer.
         result_of (generate_answer sv conversation no_fragments_context user_input w3)
           = Inr answer \<and>
         result_of (pipeline sv user_input conversation w) = Inr (answer, [])) \<and>
      events_of (pipeline sv user_input conversation w)
        = events_of (safe_generate_content sv (expand_prompt user_input) default_max_retries w)
          @ Print [''La consulta expandida es: '', expanded_query]
          # events_of (safe_embed_content sv expanded_query default_max_retries w1)
          @ events_of (retrieve sv query_vector w2)
          @ events_of (generate_answer sv conversation no_fragments_context user_input w3) \<and>
      set (filter is_generate_call (events_of (pipeline sv user_input conversation w)))
        \<subseteq> {GenerateCall (expand_prompt user_input),
            GenerateCall (final_prompt (format_history (butlast conversation))
                            no_fragments_context user_input)})"
proof (intro conjI impI)
  show "synthesize sv [] user_input w = (Inr no_fragments_context, [], w)"
    by (rule synthesize_empty)
next
  assume a: "result_of (safe_generate_content sv (expand_prompt user_input) default_max_retries w)
        = Inr expanded_query \<and>
    world_of (safe_generate_content sv (expand_prompt user_input) default_max_retries w) = w1 \<and>
    result_of (safe_embed_content sv expanded_query default_max_retries w1) = Inr query_vector \<and>
    world_of (safe_embed_content sv expanded_query default_max_retries w1) = w2 \<and>
    result_of (retrieve sv query_vector w2) = Inr [] \<and>
    world_of (retrieve sv query_vector w2) = w3"
  from a obtain ev1 where g:
    "safe_generate_content sv (expand_prompt user_input) default_max_retries w
       = (Inr expanded_query, ev1, w1)"
    by (cases "safe_generate_content sv (expand_prompt user_input) default_max_retries w") simp
  from a obtain ev2 where e:
    "safe_embed_content sv expanded_query default_max_retries w1 = (Inr query_vector, ev2, w2)"
    by (cases "safe_embed_content sv expanded_query default_max_retries w1") simp
  from a obtain ev3 where r: "retrieve sv query_vector w2 = (Inr [], ev3, w3)"
    by (cases "retrieve sv query_vector w2") simp
  from generate_answer_spec[of sv conversation no_fragments_context user_input w3]
  obtain answer ev5 w5 where ans:
    "generate_answer sv conversation no_fragments_context user_input w3 = (Inr answer, ev5, w5)"
    by blast
  have p: "pipeline sv user_input conversation w
      = (Inr (answer, []),
         ev1 @ Print [''La consulta expandida es: '', expanded_query] # ev2 @ ev3 @ ev5, w5)"
    by (simp add: pipeline_eq[OF g e] r synthesize_empty ans)
  show "\<exists>answer.
         result_of (generate_answer sv conversation no_fragments_context user_input w3)
           = Inr answer \<and>
         result_of (pipeline sv user_input conversation w) = Inr (answer, [])"
    using ans p by simp
  show "events_of (pipeline sv user_input conversation w)
        = events_of (safe_generate_content sv (expand_prompt user_input) default_max_retries w)
          @ Print [''La consulta expandida es: '', expanded_query]
          # events_of (safe_embed_content sv expanded_query default_max_retries w1)
          @ events_of (retrieve sv query_vector w2)
          @ events_of (generate_answer sv conversation no_fragments_context user_input w3)"
    using g e r ans p by simp
  have "set (filter is_generate_call ev1) \<subseteq> {GenerateCall (expand_prompt user_input)}"
    using only_generate_call[OF safe_generate_content_events,
        of sv "expand_prompt user_input" default_max_retries w] g by simp
  moreover have "filter is_generate_call ev2 = []"
    using no_generate_call(1)[OF safe_embed_content_events,
        of sv expanded_query default_max_retries w1] e by simp
  moreover have "filter is_generate_call ev3 = []"
    using no_generate_call(2)[OF retrieve_events, of sv query_vector w2] r by simp
  moreover have "set (filter is_generate_call ev5)
      \<subseteq> {GenerateCall (final_prompt (format_history (butlast conversation))
                            no_fragments_context user_input)}"
    using only_generate_call[OF generate_answer_events,
        of sv conversation no_fragments_context user_input w3] ans by simp
  ultimately show "set (filter is_generate_call (events_of (pipeline sv user_input conversation w)))
        \<subseteq> {GenerateCall (expand_prompt user_input),
            GenerateCall (final_prompt (format_history (butlast conversation))
                            no_fragments_context user_input)}"
    using p by auto
qed

text \<open>
  C8. When the expansion of the query returns the fallback text, the pipeline goes on:
  right after the calls of the expansion and the printed line comes a call of the
  embedding service on that fallback text, and every call of the embedding service in
  the turn is made on it.
\<close>

theorem expansion_failure_proceeds:
  assumes "result_of (safe_generate_content sv (expand_prompt user_input) default_max_retries w)
             = Inr generate_fallback"
  shows "(\<exists>rest. events_of (pipeline sv user_input conversation w)
            = events_of (safe_generate_content sv (expand_prompt user_input) default_max_retries w)
              @ Print [''La consulta expandida es: '', generate_fallback]
              # EmbedCall generate_fallback # rest) \<and>
         set (filter is_embed_call (events_of (pipeline sv user_input conversation w)))
           = {EmbedCall generate_fallback}"
proof -
  let ?q = generate_fallback
  from assms obtain ev1 w1 where g:
    "safe_generate_content sv (expand_prompt user_input) default_max_retries w = (Inr ?q, ev1, w1)"
    by (cases "safe_generate_content sv (expand_prompt user_input) default_max_retries w") simp
  from safe_embed_content_spec[of sv ?q default_max_retries w1]
  obtain qv ev2 w2 rest2 where e:
    "safe_embed_content sv ?q default_max_retries w1 = (Inr qv, ev2, w2)"
    "ev2 = EmbedCall ?q # rest2"
    by (auto simp: default_max_retries_def)
  have n1: "filter is_embed_call ev1 = []"
    using no_embed_call(1)[OF safe_generate_content_events,
        of sv "expand_prompt user_input" default_max_retries w] g by simp
  have s2: "set (filter is_embed_call ev2) = {EmbedCall ?q}"
    using only_embed_call[OF safe_embed_content_events, of sv ?q default_max_retries w1] e
    by auto
  obtain r ev3 w3 where rt: "retrieve sv qv w2 = (r, ev3, w3)"
    by (cases "retrieve sv qv w2") auto
  have n3: "filter is_embed_call ev3 = []"
    using no_embed_call(2)[OF retrieve_events, of sv qv w2] rt by simp
  show ?thesis
  proof (cases r)
    case (Inl x)
    have "events_of (pipeline sv user_input conversation w)
        = ev1 @ Print [''La consulta expandida es: '', ?q] # ev2 @ ev3"
      by (simp add: pipeline_eq[OF g e(1)] rt Inl)
    then show ?thesis using g e(2) n1 s2 n3 by auto
  next
    case (Inr fs)
    from synthesize_spec[of sv fs user_input w3]
    obtain c ev4 w4 where s: "synthesize sv fs user_input w3 = (Inr c, ev4, w4)"
      "\<forall>e\<in>set ev4. \<not> is_embed_call e \<and> \<not> is_index_query e" by blast
    from generate_answer_spec[of sv conversation c user_input w4]
    obtain a ev5 w5 where a: "generate_answer sv conversation c user_input w4 = (Inr a, ev5, w5)"
      "\<forall>e\<in>set ev5. \<not> is_embed_call e \<and> \<not> is_index_query e" by blast
    have n4: "filter is_embed_call ev4 = []" using s(2) by (auto simp: filter_empty_conv)
    have n5: "filter is_embed_call ev5 = []" using a(2) by (auto simp: filter_empty_conv)
    have "events_of (pipeline sv user_input conversation w)
        = ev1 @ Print [''La consulta expandida es: '', ?q] # ev2 @ ev3 @ ev4 @ ev5"
      by (simp add: pipeline_eq[OF g e(1)] rt Inr s(1) a(1))
    then show ?thesis using g e(2) n1 s2 n3 n4 n5 by auto
  qed
qed

section \<open>Runs of the example services\<close>

lemmas run_simps =
  generate_attempt_eq embed_attempt_eq generated_text_def embedded_value_def
  safe_generate_content_def safe_embed_content_def default_max_retries_def
  py_bind_def py_return_def py_try_def py_lift_def print_def emit_def st_error_def
  call_query_def numeral_3_eq_3

lemma example_generate:
  "safe_generate_content example_services prompt default_max_retries n
     = (Inr ''El plazo es de 12 meses.'', [GenerateCall prompt], Suc n)"
  by (simp add: run_simps example_services_def text_response_def strip_def isspace_def)

lemma example_embed:
  "safe_embed_content example_services q default_max_retries n
     = (Inr (PyList [1, 0]), [EmbedCall q], Suc n)"
  by (simp add: run_simps example_services_def)

lemma example_scan:
  "for_matches example_matches []
     = (None,
        [\<lparr>texto = ''Objeto del contrato'', documento = ''1.1'', score = Finite 0.91\<rparr>,
         \<lparr>texto = ''Plazo de ejecucion'', documento = ''2.3'', score = Finite 0.73\<rparr>,
         \<lparr>texto = ''Presupuesto'', documento = [], score = Finite 0.60\<rparr>])"
  by (simp add: example_matches_def MIN_SIMILARITY_SCORE_def dict_get_def)

lemma example_retrieve:
  "retrieve example_services (PyList [1, 0]) n
     = (Inr [\<lparr>texto = ''Objeto del contrato'', documento = ''1.1'', score = Finite 0.91\<rparr>,
             \<lparr>texto = ''Plazo de ejecucion'', documento = ''2.3'', score = Finite 0.73\<rparr>,
             \<lparr>texto = ''Presupuesto'', documento = [], score = Finite 0.60\<rparr>],
        [IndexQuery (PyList [1, 0]) TOP_K True], Suc n)"
  by (simp add: retrieve_true scan_query_res_def example_scan example_services_def)

lemma example_session:
  "result_of (session example_services [Some ''hola''] [] 0)
     = Inr [\<lparr>role = ''Usuario'', content = ''hola'', fragments = None\<rparr>,
            \<lparr>role = ''Asistente'', content = ''El plazo es de 12 meses.'',
             fragments = Some
               [\<lparr>texto = ''Objeto del contrato'', documento = ''1.1'', score = Finite 0.91\<rparr>,
                \<lparr>texto = ''Plazo de ejecucion'', documento = ''2.3'', score = Finite 0.73\<rparr>,
                \<lparr>texto = ''Presupuesto'', documento = [], score = Finite 0.60\<rparr>]\<rparr>]"
  by (simp add: script_def respond_def pipeline_def synthesize_def generate_answer_def
      example_generate example_embed example_retrieve
      py_bind_def py_return_def py_try_def print_def emit_def)

lemma ambiguous_generate:
  "safe_generate_content ambiguous_vector_services prompt default_max_retries n
     = (Inr ''El plazo es de 12 meses.'', [GenerateCall prompt], Suc n)"
  by (simp add: run_simps ambiguous_vector_services_def example_services_def text_response_def
      strip_def isspace_def)

lemma ambiguous_embed:
  "safe_embed_content ambiguous_vector_services q default_max_retries n
     = (Inr (PyObject (Inl (ValueError ''The truth value is ambiguous''))), [EmbedCall q], Suc n)"
  by (simp add: run_simps ambiguous_vector_services_def example_services_def)

lemma ambiguous_pipeline:
  "result_of (pipeline ambiguous_vector_services ''hola'' [] 0)
     = Inl (ValueError ''The truth value is ambiguous'')"
  by (simp add: pipeline_eq[OF ambiguous_generate ambiguous_embed] retrieve_raise)

theorem threshold_invariant_witness:
  "(\<exists>conversation. result_of (session example_services [Some ''hola''] [] 0) = Inr conversation \<and>
      (\<exists>t\<in>set conversation. \<exists>fs. fragments t = Some fs \<and> fs \<noteq> [] \<and>
         (\<forall>f\<in>set fs. float_ge (score f) MIN_SIMILARITY_SCORE))) \<and>
   result_of (pipeline ambiguous_vector_services ''hola'' [] 0)
     = Inl (ValueError ''The truth value is ambiguous'') \<and>
   result_of (respond ambiguous_vector_services ''hola'' [] 0)
     = Inr (error_answer (ValueError ''The truth value is ambiguous''), [])"
  using threshold_invariant[of example_services "[Some ''hola'']" 0 ambiguous_vector_services
      "''hola''" "[]" 0 "ValueError ''The truth value is ambiguous''"]
    example_session ambiguous_pipeline
  by auto

lemma failing_generate_first:
  "result_of (safe_generate_content failing_services prompt default_max_retries 0)
     = Inr generate_fallback"
  "world_of (safe_generate_content failing_services prompt default_max_retries 0) = 3"
  by (simp_all add: run_simps failing_services_def)


lemma empty_vector_generate:
  "safe_generate_content empty_vector_services prompt default_max_retries n
     = (Inr ''El plazo es de 12 meses.'', [GenerateCall prompt], Suc n)"
  by (simp add: run_simps empty_vector_services_def example_services_def text_response_def
      strip_def isspace_def)

lemma no_match_generate:
  "safe_generate_content no_match_services prompt default_max_retries n
     = (Inr ''El plazo es de 12 meses.'', [GenerateCall prompt], Suc n)"
  by (simp add: run_simps no_match_services_def example_services_def text_response_def
      strip_def isspace_def)

lemma no_match_embed:
  "safe_embed_content no_match_services q default_max_retries n
     = (Inr (PyList [1, 0]), [EmbedCall q], Suc n)"
  by (simp add: run_simps no_match_services_def example_services_def)

lemma no_match_retrieve:
  "retrieve no_match_services (PyList [1, 0]) n
     = (Inr [], [IndexQuery (PyList [1, 0]) TOP_K True], Suc n)"
  by (simp add: retrieve_true scan_query_res_def no_match_services_def example_services_def
      MIN_SIMILARITY_SCORE_def)


theorem empty_vector_skips_retrieval_witness:
  "fst (embed_content empty_vector_services ''El plazo es de 12 meses.'' 1)
     = Inr (EmbedDict (Some (PyList []))) \<and>
   result_of (safe_generate_content empty_vector_services (expand_prompt ''hola'')
                default_max_retries 0) = Inr ''El plazo es de 12 meses.'' \<and>
   world_of (safe_generate_content empty_vector_services (expand_prompt ''hola'')
                default_max_retries 0) = 1 \<and>
   result_of (safe_embed_content empty_vector_services ''El plazo es de 12 meses.''
                default_max_retries 1) = Inr (PyList []) \<and>
   (\<exists>answer.
      result_of (script empty_vector_services (Some ''hola'') [] 0)
        = Inr [\<lparr>role = ''Usuario'', content = ''hola'', fragments = None\<rparr>,
               \<lparr>role = ''Asistente'', content = answer, fragments = Some []\<rparr>] \<and>
      filter is_index_query (events_of (script empty_vector_services (Some ''hola'') [] 0)) = [])"
proof -
  have h0: "fst (embed_content empty_vector_services ''El plazo es de 12 meses.'' 1)
     = Inr (EmbedDict (Some (PyList [])))"
    by (simp add: empty_vector_services_def)
  have h1: "result_of (safe_generate_content empty_vector_services (expand_prompt ''hola'')
                default_max_retries 0) = Inr ''El plazo es de 12 meses.''"
    and h2: "world_of (safe_generate_content empty_vector_services (expand_prompt ''hola'')
                default_max_retries 0) = 1"
    by (simp_all add: empty_vector_generate)
  from empty_vector_skips_retrieval[of empty_vector_services 0 "''El plazo es de 12 meses.''" 1
      "''hola''" "[]"] h0 h1 h2
  show ?thesis by auto
qed

theorem order_preserved_witness:
  "list_all well_formed example_matches \<and>
   map score (snd (for_matches example_matches [])) = [Finite 0.91, Finite 0.73, Finite 0.60] \<and>
   truth_value (PyList [1, 0]) = Inr True \<and>
   fst (index_query example_services (PyList [1, 0]) TOP_K True 0)
     = Inr (QueryRes (Some (Matches example_matches))) \<and>
   result_of (retrieve example_services (PyList [1, 0]) 0)
     = Inr (snd (for_matches example_matches []))"
proof -
  have wf: "\<forall>m\<in>set example_matches. well_formed m"
    by (simp add: example_matches_def)
  have sc: "filter (\<lambda>x. float_ge x MIN_SIMILARITY_SCORE)
              (map match_score_or_default example_matches)
            = [Finite 0.91, Finite 0.73, Finite 0.60]"
    by (simp add: example_matches_def MIN_SIMILARITY_SCORE_def)
  have q: "fst (index_query example_services (PyList [1, 0]) TOP_K True 0)
     = Inr (QueryRes (Some (Matches example_matches)))"
    by (simp add: example_services_def)
  from order_preserved[of example_matches "PyList [1, 0]" example_services 0] wf sc q
  show ?thesis by (simp add: list_all_iff)
qed


theorem empty_retrieval_skips_synthesis_witness:
  "result_of (safe_generate_content no_match_services (expand_prompt ''hola'') default_max_retries 0)
     = Inr ''El plazo es de 12 meses.'' \<and>
   world_of (safe_generate_content no_match_services (expand_prompt ''hola'') default_max_retries 0)
     = 1 \<and>
   result_of (safe_embed_content no_match_services ''El plazo es de 12 meses.''
                default_max_retries 1) = Inr (PyList [1, 0]) \<and>
   world_of (safe_embed_content no_match_services ''El plazo es de 12 meses.''
                default_max_retries 1) = 2 \<and>
   result_of (retrieve no_match_services (PyList [1, 0]) 2) = Inr [] \<and>
   world_of (retrieve no_match_services (PyList [1, 0]) 2) = 3 \<and>
   result_of (pipeline no_match_services ''hola'' [] 0) = Inr (''El plazo es de 12 meses.'', []) \<and>
   set (filter is_generate_call (events_of (pipeline no_match_services ''hola'' [] 0)))
     \<subseteq> {GenerateCall (expand_prompt ''hola''),
         GenerateCall (final_prompt (format_history (butlast [])) no_fragments_context ''hola'')}"
proof -
  have h: "result_of (safe_generate_content no_match_services (expand_prompt ''hola'')
             default_max_retries 0) = Inr ''El plazo es de 12 meses.'' \<and>
    world_of (safe_generate_content no_match_services (expand_prompt ''hola'')
             default_max_retries 0) = 1 \<and>
    result_of (safe_embed_content no_match_services ''El plazo es de 12 meses.''
                default_max_retries 1) = Inr (PyList [1, 0]) \<and>
    world_of (safe_embed_content no_match_services ''El plazo es de 12 meses.''
                default_max_retries 1) = 2 \<and>
    result_of (retrieve no_match_services (PyList [1, 0]) 2) = Inr [] \<and>
    world_of (retrieve no_match_services (PyList [1, 0]) 2) = 3"
    by (simp add: no_match_generate no_match_embed no_match_retrieve eval_nat_numeral)
  have a: "result_of (generate_answer no_match_services [] no_fragments_context ''hola'' 3)
             = Inr ''El plazo es de 12 meses.''"
    by (simp add: generate_answer_def no_match_generate py_bind_def py_return_def)
  from empty_retrieval_skips_synthesis[of no_match_services "''hola''" 0
      "''El plazo es de 12 meses.''" 1 "PyList [1, 0]" 2 3 "[]"] h a
  show ?thesis by auto
qed

theorem expansion_failure_proceeds_witness:
  "result_of (safe_generate_content failing_services (expand_prompt ''hola'') default_max_retries 0)
     = Inr generate_fallback \<and>
   (\<exists>rest. events_of (pipeline failing_services ''hola'' [] 0)
      = events_of (safe_generate_content failing_services (expand_prompt ''hola'')
                     default_max_retries 0)
        @ Print [''La consulta expandida es: '', generate_fallback]
        # EmbedCall generate_fallback # rest) \<and>
   set (filter is_embed_call (events_of (pipeline failing_services ''hola'' [] 0)))
     = {EmbedCall generate_fallback}"
proof -
  have h: "result_of (safe_generate_content failing_services (expand_prompt ''hola'')
             default_max_retries 0) = Inr generate_fallback"
    by (rule failing_generate_first)
  from expansion_failure_proceeds[OF h, of "[]"] h
  show ?thesis by simp
qed

lemma failing_base_generate_calls:
  "successive_calls (base_generate_content (as_base failing_services) prompt) 3 0
     = [Inl (Exc (Exception ''503 Service Unavailable'')), Inr (Response None),
        Inr (Response (Some [Candidate None]))]"
  by (simp add: numeral_3_eq_3 failing_services_def as_base_def)

lemma failing_base_embed_calls:
  "successive_calls (base_embed_content (as_base failing_services) q) 3 0
     = [Inl (Exc (Exception ''503 Service Unavailable'')), Inr (EmbedDict None), Inr EmbedOther]"
  by (simp add: numeral_3_eq_3 failing_services_def as_base_def)

theorem wrappers_catch_exceptions_witness:
  "map returns_or_raises_Exception
     (successive_calls (base_generate_content (as_base failing_services) ''hola'') 3 0)
     = [True, True, True] \<and>
   map base_generated_text
     (successive_calls (base_generate_content (as_base failing_services) ''hola'') 3 0)
     = [None, None, None] \<and>
   fst (base_safe_generate_content (as_base failing_services) ''hola'' 3 0)
     = Inr generate_fallback \<and>
   map returns_or_raises_Exception
     (successive_calls (base_embed_content (as_base failing_services) ''hola'') 3 0)
     = [True, True, True] \<and>
   map base_embedded_value
     (successive_calls (base_embed_content (as_base failing_services) ''hola'') 3 0)
     = [None, None, None] \<and>
   fst (base_safe_embed_content (as_base failing_services) ''hola'' 3 0) = Inr PyNone \<and>
   fst (base_generate_content interrupted_services ''hola'' 1) = Inl KeyboardInterrupt \<and>
   \<not> is_Exception KeyboardInterrupt \<and>
   fst (base_safe_generate_content interrupted_services ''hola'' (Suc 0) 1)
     = Inl KeyboardInterrupt \<and>
   fst (base_embed_content interrupted_services ''hola'' 1) = Inl SystemExit \<and>
   \<not> is_Exception SystemExit \<and>
   fst (base_safe_embed_content interrupted_services ''hola'' (Suc 0) 1) = Inl SystemExit"
proof -
  have h: "fst (base_generate_content interrupted_services ''hola'' 1) = Inl KeyboardInterrupt"
    "fst (base_embed_content interrupted_services ''hola'' 1) = Inl SystemExit"
    by (simp_all add: interrupted_services_def)
  from wrappers_catch_exceptions[of "as_base failing_services" "''hola''" 3 0 "''hola''"]
    wrappers_catch_exceptions[of interrupted_services "''hola''" 0 1 "''hola''"
      KeyboardInterrupt 0 SystemExit] h
  show ?thesis
    by (simp add: failing_base_generate_calls failing_base_embed_calls base_generated_text_def
        base_embedded_value_def)
qed

text \<open>
  A call that raises \<^verbatim>\<open>KeyboardInterrupt\<close> or \<^verbatim>\<open>SystemExit\<close>: the handler of the attempt
  does not catch it, and the wrapper raises it to its caller, here during the second of
  three attempts.
\<close>

theorem interrupt_propagates:
  "fst (base_generate_content interrupted_services ''hola'' 1) = Inl KeyboardInterrupt \<and>
   fst (base_safe_generate_content interrupted_services ''hola'' 3 0) = Inl KeyboardInterrupt \<and>
   fst (base_embed_content interrupted_services ''hola'' 1) = Inl SystemExit \<and>
   fst (base_safe_embed_content interrupted_services ''hola'' 3 0) = Inl SystemExit"
  by (simp add: base_safe_generate_content_def base_safe_embed_content_def numeral_3_eq_3
      base_bind_def base_generate_attempt_eq base_embed_attempt_eq interrupted_services_def
      base_generated_text_def base_embedded_value_def)

end
